theory Spec2Isabelle
  imports Main
begin

section \<open>Python strings\<close>

text \<open>
  A Python \<open>str\<close> is modelled as a HOL \<open>string\<close>: a list of characters with code
  points below 256. The string methods the converters call are written out for that range.
  \<open>None\<close> is the \<open>None\<close> of \<open>string option\<close>.
\<close>

definition py_isspace :: "char \<Rightarrow> bool" where
  \<comment> \<open>the characters \<open>str.strip()\<close> removes: code points 9-13, 28-32, 133 and 160\<close>
  "py_isspace c = (let n = (of_char c :: nat) in
     (9 \<le> n \<and> n \<le> 13) \<or> (28 \<le> n \<and> n \<le> 32) \<or> n = 133 \<or> n = 160)"

definition py_strip :: "string \<Rightarrow> string" where
  \<comment> \<open>\<open>s.strip()\<close>\<close>
  "py_strip s = rev (dropWhile py_isspace (rev (dropWhile py_isspace s)))"

definition py_lower_char :: "char \<Rightarrow> char" where
  "py_lower_char c = (let n = (of_char c :: nat) in
     if (65 \<le> n \<and> n \<le> 90) \<or> (192 \<le> n \<and> n \<le> 222 \<and> n \<noteq> 215)
     then char_of (n + 32) else c)"

definition py_lower :: "string \<Rightarrow> string" where
  \<comment> \<open>\<open>s.lower()\<close>\<close>
  "py_lower s = map py_lower_char s"

definition py_upper_char :: "char \<Rightarrow> string" where
  \<comment> \<open>\<open>c.upper()\<close>; the sharp s (223) becomes two letters. The upper-case forms of 181
      and 255 lie above 255 and are left as they are.\<close>
  "py_upper_char c = (let n = (of_char c :: nat) in
     if (97 \<le> n \<and> n \<le> 122) \<or> (224 \<le> n \<and> n \<le> 254 \<and> n \<noteq> 247)
     then [char_of (n - 32)]
     else if n = 223 then ''SS'' else [c])"

definition py_upper :: "string \<Rightarrow> string" where
  \<comment> \<open>\<open>s.upper()\<close>\<close>
  "py_upper s = concat (map py_upper_char s)"

definition is_ascii_digit :: "char \<Rightarrow> bool" where
  "is_ascii_digit c = (let n = (of_char c :: nat) in 48 \<le> n \<and> n \<le> 57)"

definition py_isdigit :: "string \<Rightarrow> bool" where
  \<comment> \<open>\<open>s.isdigit()\<close>: non-empty, every character a digit. Below 256 the digits are
      0-9 and the superscripts 178, 179 and 185.\<close>
  "py_isdigit s = (s \<noteq> [] \<and>
     (\<forall>c \<in> set s. is_ascii_digit c \<or> (of_char c :: nat) \<in> {178, 179, 185}))"

definition digit_val :: "char \<Rightarrow> nat" where
  "digit_val c = of_char c - 48"

definition py_int :: "string \<Rightarrow> nat option" where
  \<comment> \<open>\<open>int(s)\<close> on a string that passed \<open>isdigit\<close>; \<open>None\<close> is the ValueError
      that a superscript digit raises\<close>
  "py_int s = (if s \<noteq> [] \<and> (\<forall>c \<in> set s. is_ascii_digit c)
     then Some (foldl (\<lambda>a c. 10 * a + digit_val c) 0 s) else None)"

fun digits_of :: "nat \<Rightarrow> string" where
  "digits_of n = (if n < 10 then [char_of (48 + n)]
     else digits_of (n div 10) @ [char_of (48 + n mod 10)])"

declare digits_of.simps [simp del]

definition str_nat :: "nat \<Rightarrow> string" where
  \<comment> \<open>\<open>str(n)\<close> for a non-negative integer\<close>
  "str_nat n = digits_of n"

section \<open>The library operations the converters call\<close>

text \<open>
  Floating-point numbers, the entity table of \<open>html.unescape\<close> and the random identifiers
  of \<open>uuid.uuid4\<close> belong to the Python library, not to the converters. They are
  parameters of the model, collected in one record; every general theorem below holds for all
  values of the record.
\<close>

record 'f pylib =
  float_of :: "string \<Rightarrow> 'f option"    \<comment> \<open>\<open>float(s)\<close>; \<open>None\<close> is ValueError\<close>
  float_str :: "'f \<Rightarrow> string"          \<comment> \<open>\<open>str(x)\<close>\<close>
  float_fmt2 :: "'f \<Rightarrow> string"         \<comment> \<open>\<open>f"{x:.2f}"\<close>\<close>
  float_add :: "'f \<Rightarrow> 'f \<Rightarrow> 'f"         \<comment> \<open>\<open>x + y\<close>\<close>
  float_zero :: "'f"                   \<comment> \<open>\<open>0.0\<close>, also \<open>float(0)\<close>\<close>
  charref_sub :: "string \<Rightarrow> string"    \<comment> \<open>\<open>html._charref.sub(html._replace_charref, s)\<close>\<close>
  uuid_hex :: "nat \<Rightarrow> string"          \<comment> \<open>the \<open>k\<close>-th \<open>uuid.uuid4().hex\<close> of a run\<close>

definition html_unescape :: "'f pylib \<Rightarrow> string \<Rightarrow> string" where
  \<comment> \<open>\<open>html.unescape\<close>: \<open>if '&' not in s: return s\<close>, else the substitution\<close>
  "html_unescape L s = (if CHR ''&'' \<notin> set s then s else charref_sub L s)"

section \<open>Text cleaning (QTIconverter3.py, clean_text)\<close>

fun tag_close :: "string \<Rightarrow> string option" where
  \<comment> \<open>the lazy rest of a tag: the text after the first closing bracket, unless an opening
      bracket or the end of the string comes first\<close>
  "tag_close [] = None"
| "tag_close (c # cs) =
     (if c = CHR ''>'' then Some cs else if c = CHR ''<'' then None else tag_close cs)"

definition tag_match :: "string \<Rightarrow> string option" where
  \<comment> \<open>what follows an opening bracket in a match: at least one character that is not an
      opening bracket, then lazily up to the first closing bracket\<close>
  "tag_match s = (case s of [] \<Rightarrow> None
     | d # ds \<Rightarrow> if d = CHR ''<'' then None else tag_close ds)"

function re_sub_tags :: "string \<Rightarrow> string" where
  \<comment> \<open>\<open>re.sub('<[^<]+?>', '', s)\<close>: scan from the left, drop each match, copy the rest\<close>
  "re_sub_tags [] = []"
| "re_sub_tags (c # cs) =
     (if c = CHR ''<'' then
        (case tag_match cs of Some r \<Rightarrow> re_sub_tags r | None \<Rightarrow> c # re_sub_tags cs)
      else c # re_sub_tags cs)"
  by pat_completeness auto
termination
proof (relation "measure length")
  have close: "length r < length s" if "tag_close s = Some r" for s r
    using that by (induction s) (auto split: if_splits)
  have match: "length r < length s" if "tag_match s = Some r" for s r
    using that by (cases s) (auto simp: tag_match_def split: if_splits dest: close)
  fix c :: char and cs r
  assume "tag_match cs = Some r"
  then show "(r, c # cs) \<in> measure length"
    by (auto dest: match)
qed auto

definition clean_text :: "'f pylib \<Rightarrow> string option \<Rightarrow> string" where
  "clean_text L raw_text = (case raw_text of
       None \<Rightarrow> ''''
     | Some s \<Rightarrow> if s = [] then '''' else py_strip (html_unescape L (re_sub_tags s)))"

definition clean_html :: "string option \<Rightarrow> string" where
  \<comment> \<open>QTIconverter.py and QTIconverter2.py: the same without the unescaping\<close>
  "clean_html raw_html = (case raw_html of
       None \<Rightarrow> ''''
     | Some s \<Rightarrow> if s = [] then '''' else py_strip (re_sub_tags s))"

section \<open>XML elements (xml.etree.ElementTree)\<close>

text \<open>
  An element has a tag, its attributes in document order, the text before its first child
  (\<open>None\<close> when there is none) and its children. An attribute value is whatever object
  the program stored: a string, or \<open>None\<close>, which \<open>get\<close> cannot tell from a missing
  attribute and which cannot be serialised. A parsed tag \<open>{uri}local\<close> is the pair
  of the namespace URI and the local name; an element built without a namespace has the empty
  URI. The tail text after an element is never read by the converters and is left out.
\<close>

type_synonym qname = "string \<times> string"

datatype elem =
  Elem (tag: qname) (attrib: "(string \<times> string option) list") (text_of: "string option")
       (children: "elem list")

datatype py_error = TypeError | ValueError | AttributeError | ExpatError

definition get :: "elem \<Rightarrow> string \<Rightarrow> string option" where
  \<comment> \<open>\<open>e.get(key)\<close>\<close>
  "get e k = (case map_of (attrib e) k of Some v \<Rightarrow> v | None \<Rightarrow> None)"

fun iter :: "elem \<Rightarrow> elem list" where
  \<comment> \<open>\<open>e.iter()\<close>: the element and its descendants in document order\<close>
  "iter (Elem t a x cs) = Elem t a x cs # concat (map iter cs)"

definition descendants :: "elem \<Rightarrow> elem list" where
  "descendants e = concat (map iter (children e))"

definition findall_desc :: "qname \<Rightarrow> elem \<Rightarrow> elem list" where
  \<comment> \<open>\<open>e.findall('.//t')\<close>\<close>
  "findall_desc t e = filter (\<lambda>x. tag x = t) (descendants e)"

definition findall_child :: "qname \<Rightarrow> elem \<Rightarrow> elem list" where
  \<comment> \<open>\<open>e.findall('t')\<close>\<close>
  "findall_child t e = filter (\<lambda>x. tag x = t) (children e)"

definition first :: "'a list \<Rightarrow> 'a option" where
  \<comment> \<open>\<open>find\<close> is the first result of \<open>findall\<close>, or \<open>None\<close>\<close>
  "first xs = (case xs of [] \<Rightarrow> None | x # _ \<Rightarrow> Some x)"

definition find_desc :: "qname \<Rightarrow> elem \<Rightarrow> elem option" where
  \<comment> \<open>\<open>e.find('.//t')\<close>\<close>
  "find_desc t e = first (findall_desc t e)"

definition find_child :: "qname \<Rightarrow> elem \<Rightarrow> elem option" where
  \<comment> \<open>\<open>e.find('t')\<close>\<close>
  "find_child t e = first (findall_child t e)"

definition ims_ns :: string where
  "ims_ns = ''http://www.imsglobal.org/xsd/ims_qtiasiv1p2''"

abbreviation ims :: "string \<Rightarrow> qname" where
  "ims t \<equiv> (ims_ns, t)"

section \<open>Decoding (QTIconverter3.py, convert_qti_to_csv)\<close>

record row =
  Type :: string
  Title :: string
  Points :: string
  Question_Body :: string
  Correct_Answer :: string
  Options :: "string list"           \<comment> \<open>\<open>Option 1\<close> to \<open>Option 5\<close>\<close>
  General_Feedback :: string
  Correct_Feedback :: string
  Incorrect_Feedback :: string
  Feedbacks :: "string list"         \<comment> \<open>\<open>Feedback 1\<close> to \<open>Feedback 5\<close>\<close>

definition empty_row :: row where
  \<comment> \<open>\<open>{key: "" for key in fieldnames}\<close>\<close>
  "empty_row = \<lparr>Type = '''', Title = '''', Points = '''', Question_Body = '''',
     Correct_Answer = '''', Options = replicate 5 '''', General_Feedback = '''',
     Correct_Feedback = '''', Incorrect_Feedback = '''', Feedbacks = replicate 5 ''''\<rparr>"

datatype dec_msg =
    NoQtiFile                                    \<comment> \<open>Error: QTI XML file not found in the zip archive.\<close>
  | ParseFailed                                  \<comment> \<open>Error: Could not parse XML file. ...\<close>
  | Skipping "string option" "string option"     \<comment> \<open>Skipping unsupported question type: ... (Item Title: ...)\<close>
  | Success nat                                  \<comment> \<open>Success! Extracted ... questions to: ...\<close>
  | SkippedWarning nat                           \<comment> \<open>Warning: ... items were skipped because ...\<close>
  | Unexpected py_error                          \<comment> \<open>An unexpected error occurred: ...\<close>

record dec_state =
  written :: "row list"              \<comment> \<open>the rows given to \<open>writer.writerow\<close>, in order\<close>
  count :: nat
  skipped_count :: nat
  printed :: "dec_msg list"

definition py_text_is :: "elem option \<Rightarrow> string \<Rightarrow> bool" where
  \<comment> \<open>\<open>label is not None and label.text == name\<close>\<close>
  "py_text_is label name = (case label of None \<Rightarrow> False | Some l \<Rightarrow> text_of l = Some name)"

fun scan_metadata ::
  "'f pylib \<Rightarrow> elem list \<Rightarrow> string option \<times> string \<Rightarrow> py_error + (string option \<times> string)"
where
  \<comment> \<open>the loop over the \<open>qtimetadatafield\<close> elements; the state is \<open>q_type_metadata\<close> and
      \<open>row['Points']\<close>. \<open>float(None)\<close> raises TypeError, which \<open>except ValueError\<close>
      does not catch.\<close>
  "scan_metadata L [] st = Inr st"
| "scan_metadata L (field # rest) (q_type_metadata, points) =
     (let label = find_child (ims ''fieldlabel'') field;
          entry = find_child (ims ''fieldentry'') field;
          q = (if py_text_is label ''question_type''
               then (case entry of Some e \<Rightarrow> text_of e | None \<Rightarrow> Some '''')
               else q_type_metadata)
      in if py_text_is label ''points_possible'' then
           (case (case entry of Some e \<Rightarrow> text_of e | None \<Rightarrow> Some ''0'') of
              None \<Rightarrow> Inl TypeError
            | Some raw_points \<Rightarrow>
                scan_metadata L rest
                  (q, case float_of L raw_points of
                        Some x \<Rightarrow> float_fmt2 L x
                      | None \<Rightarrow> ''0.00''))
         else scan_metadata L rest (q, points))"

definition supported_types :: "string option list" where
  "supported_types = [Some ''multiple_choice_question'', Some ''true_false_question'',
     Some ''multiple_response_question'', Some '''']"

definition response_labels :: "elem \<Rightarrow> elem list" where
  \<comment> \<open>\<open>item.findall('.//ims:render_choice/ims:response_label', ns)\<close>\<close>
  "response_labels item =
     concat (map (findall_child (ims ''response_label'')) (findall_desc (ims ''render_choice'') item))"

definition answer_text :: "'f pylib \<Rightarrow> elem \<Rightarrow> string" where
  "answer_text L label = (case find_desc (ims ''mattext'') label of
       Some text_elem \<Rightarrow> clean_text L (text_of text_elem)
     | None \<Rightarrow> '''')"

definition detect_type :: "string list \<Rightarrow> string" where
  "detect_type answer_texts =
     (let lower_answers = map py_lower answer_texts
      in if length answer_texts = 2 \<and> ''true'' \<in> set lower_answers \<and> ''false'' \<in> set lower_answers
         then ''TF'' else ''MC'')"

definition is_set_100 :: "elem \<Rightarrow> bool" where
  \<comment> \<open>\<open>cond.find(".//ims:setvar[@action='Set']", ns)\<close> is found and its text is \<open>'100'\<close>\<close>
  "is_set_100 cond =
     (case first (filter (\<lambda>e. get e ''action'' = Some ''Set'') (findall_desc (ims ''setvar'') cond)) of
        Some setvar \<Rightarrow> text_of setvar = Some ''100''
      | None \<Rightarrow> False)"

fun find_correct_id :: "elem list \<Rightarrow> string option" where
  \<comment> \<open>the loop over the \<open>respcondition\<close> elements, up to its \<open>break\<close>\<close>
  "find_correct_id [] = None"
| "find_correct_id (cond # conds) =
     (if is_set_100 cond then
        (case find_desc (ims ''varequal'') cond of
           Some varequal \<Rightarrow> text_of varequal
         | None \<Rightarrow> find_correct_id conds)
      else find_correct_id conds)"

fun index_of :: "'a list \<Rightarrow> 'a \<Rightarrow> nat" where
  \<comment> \<open>\<open>xs.index(x)\<close>, called only when \<open>x in xs\<close>\<close>
  "index_of [] x = 0"
| "index_of (y # ys) x = (if y = x then 0 else Suc (index_of ys x))"

definition py_str :: "string option \<Rightarrow> string" where
  \<comment> \<open>a string or \<open>None\<close> inside an f-string\<close>
  "py_str x = (case x of None \<Rightarrow> ''None'' | Some s \<Rightarrow> s)"

definition feedback_map :: "'f pylib \<Rightarrow> elem \<Rightarrow> (string option \<times> string) list" where
  \<comment> \<open>the assignments \<open>feedbacks[ident] = ...\<close> in order; a later one replaces an earlier one\<close>
  "feedback_map L item =
     map (\<lambda>fb. (get fb ''ident'',
                 case find_desc (ims ''mattext'') fb of
                   Some txt \<Rightarrow> clean_text L (text_of txt)
                 | None \<Rightarrow> ''''))
         (findall_desc (ims ''itemfeedback'') item)"

definition feedbacks_get :: "(string option \<times> string) list \<Rightarrow> string \<Rightarrow> string option" where
  \<comment> \<open>the dictionary read at a string key\<close>
  "feedbacks_get fbs key = map_of (rev fbs) (Some key)"

definition set_each :: "string list \<Rightarrow> string option list \<Rightarrow> string list" where
  \<comment> \<open>\<open>row[f'... {i+1}'] = v\<close> for every position \<open>i\<close> whose value is present\<close>
  "set_each cells vs =
     foldl (\<lambda>acc (i, v). case v of Some s \<Rightarrow> acc[i := s] | None \<Rightarrow> acc) cells
           (zip [0 ..< length vs] vs)"

definition extract_row :: "'f pylib \<Rightarrow> elem \<Rightarrow> string \<Rightarrow> row" where
  \<comment> \<open>steps 2 to 6 of the loop body, for an item that passed the type check; \<open>points\<close> is
      the \<open>row['Points']\<close> the metadata scan left\<close>
  "extract_row L item points =
     (let labels = take 5 (response_labels item);
          answer_ids = map (\<lambda>label. get label ''ident'') labels;
          answer_texts = map (answer_text L) labels;
          correct_id = find_correct_id (findall_desc (ims ''respcondition'') item);
          feedbacks = feedback_map L item
      in \<lparr>Type = detect_type answer_texts,
          Title = (case get item ''title'' of Some t \<Rightarrow> t | None \<Rightarrow> ''Question''),
          Points = points,
          Question_Body =
            (case first (concat (map (findall_desc (ims ''mattext''))
                                     (findall_desc (ims ''presentation'') item))) of
               Some mattext \<Rightarrow> clean_text L (text_of mattext)
             | None \<Rightarrow> ''''),
          Correct_Answer =
            (if correct_id \<in> set answer_ids
             then str_nat (index_of answer_ids correct_id + 1) else ''''),
          Options = set_each (replicate 5 '''') (map Some answer_texts),
          General_Feedback =
            (case feedbacks_get feedbacks ''general_fb'' of Some t \<Rightarrow> t | None \<Rightarrow> ''''),
          Correct_Feedback =
            (case feedbacks_get feedbacks ''correct_fb'' of Some t \<Rightarrow> t | None \<Rightarrow> ''''),
          Incorrect_Feedback =
            (case feedbacks_get feedbacks ''general_incorrect_fb'' of Some t \<Rightarrow> t | None \<Rightarrow> ''''),
          Feedbacks =
            set_each (replicate 5 '''')
              (map (\<lambda>aid. feedbacks_get feedbacks (py_str aid @ ''_fb'')) answer_ids)\<rparr>)"

definition decode_item :: "'f pylib \<Rightarrow> elem \<Rightarrow> dec_state \<Rightarrow> py_error + dec_state" where
  \<comment> \<open>one pass through the body of \<open>for item in root.findall('.//ims:item', ns)\<close>\<close>
  "decode_item L item st =
     (case scan_metadata L (findall_desc (ims ''qtimetadatafield'') item) (Some '''', '''') of
        Inl e \<Rightarrow> Inl e
      | Inr (q_type_metadata, points) \<Rightarrow>
          if q_type_metadata \<notin> set supported_types
          then Inr (st\<lparr>printed := printed st @ [Skipping q_type_metadata (get item ''title'')],
                       skipped_count := skipped_count st + 1\<rparr>)
          else Inr (st\<lparr>written := written st @ [extract_row L item points],
                       count := count st + 1\<rparr>))"

fun decode_items :: "'f pylib \<Rightarrow> elem list \<Rightarrow> dec_state \<Rightarrow> py_error \<times> dec_state + dec_state" where
  \<comment> \<open>the loop; an exception leaves it with the state reached so far\<close>
  "decode_items L [] st = Inr st"
| "decode_items L (item # items) st =
     (case decode_item L item st of
        Inl e \<Rightarrow> Inl (e, st)
      | Inr st' \<Rightarrow> decode_items L items st')"

fun contains :: "string \<Rightarrow> string \<Rightarrow> bool" where
  \<comment> \<open>\<open>sub in s\<close>\<close>
  "contains sub [] = (sub = [])"
| "contains sub (c # cs) = (take (length sub) (c # cs) = sub \<or> contains sub cs)"

definition endswith :: "string \<Rightarrow> string \<Rightarrow> bool" where
  "endswith s suf = (length suf \<le> length s \<and> drop (length s - length suf) s = suf)"

definition is_qti_file :: "string \<Rightarrow> bool" where
  "is_qti_file f = (endswith f ''.xml'' \<and> \<not> contains ''imsmanifest'' f
     \<and> \<not> contains ''assessment_meta'' f)"

record dec_result =
  csv_rows :: "row list option"      \<comment> \<open>the rows of the output file under its header; \<open>None\<close>
                                          when the file was not opened\<close>
  console :: "dec_msg list"

definition convert_qti_to_csv :: "'f pylib \<Rightarrow> (string \<times> elem option) list \<Rightarrow> dec_result" where
  \<comment> \<open>The archive is the list of its entries, each with the tree \<open>ET.parse\<close> reads from it
      (\<open>None\<close>: not well-formed). \<open>z.open(name)\<close> takes the last entry of that name.\<close>
  "convert_qti_to_csv L z =
     (case filter is_qti_file (map fst z) of
        [] \<Rightarrow> \<lparr>csv_rows = None, console = [NoQtiFile]\<rparr>
      | name # _ \<Rightarrow>
          (case map_of (rev z) name of
             Some (Some root) \<Rightarrow>
               (case decode_items L (findall_desc (ims ''item'') root)
                       \<lparr>written = [], count = 0, skipped_count = 0, printed = []\<rparr> of
                  Inl (e, st) \<Rightarrow>
                    \<lparr>csv_rows = Some (written st), console = printed st @ [Unexpected e]\<rparr>
                | Inr st \<Rightarrow>
                    \<lparr>csv_rows = Some (written st),
                     console = printed st @ [Success (count st)]
                       @ (if skipped_count st > 0 then [SkippedWarning (skipped_count st)] else [])\<rparr>)
           | _ \<Rightarrow> \<lparr>csv_rows = None, console = [ParseFailed]\<rparr>))"

section \<open>Writing and reading back an XML document\<close>

text \<open>
  \<open>prettify\<close> serialises a tree with \<open>ET.tostring\<close>, parses the text with
  \<open>minidom.parseString\<close> and writes it again with \<open>toprettyxml(indent="  ")\<close>. The text it
  returns is represented by the tree that \<open>ET.parse\<close> reads from it: tags are qualified by
  the namespace declarations in scope, the declarations are no longer attributes, an element
  with children has the indentation as its text, and line breaks in text are normalised.
  Serialising fails with TypeError on an attribute value \<open>None\<close>; parsing fails on a
  character XML does not allow. Tags and attribute names are the fixed names the program
  writes, so only texts and attribute values are checked. Tabs and line breaks inside
  attribute values are kept as they are.
\<close>

definition xml_char_ok :: "char \<Rightarrow> bool" where
  "xml_char_ok c = (let n = (of_char c :: nat) in n = 9 \<or> n = 10 \<or> n = 13 \<or> 32 \<le> n)"

fun xml_newlines :: "string \<Rightarrow> string" where
  "xml_newlines [] = []"
| "xml_newlines [c] = [if c = CHR 0x0D then CHR 0x0A else c]"
| "xml_newlines (c # d # ds) =
     (if c = CHR 0x0D then
        (if d = CHR 0x0A then CHR 0x0A # xml_newlines ds else CHR 0x0A # xml_newlines (d # ds))
      else c # xml_newlines (d # ds))"

definition attr_none :: "elem \<Rightarrow> bool" where
  "attr_none e = (\<exists>x \<in> set (iter e). \<exists>kv \<in> set (attrib x). snd kv = None)"

definition chars_ok :: "elem \<Rightarrow> bool" where
  "chars_ok e = (\<forall>x \<in> set (iter e).
     (\<forall>c \<in> set (case text_of x of Some s \<Rightarrow> s | None \<Rightarrow> []). xml_char_ok c) \<and>
     (\<forall>kv \<in> set (attrib x). \<forall>c \<in> set (case snd kv of Some s \<Rightarrow> s | None \<Rightarrow> []). xml_char_ok c))"

definition ns_decls :: "(string \<times> string option) list \<Rightarrow> (string \<times> string) list" where
  \<comment> \<open>the prefixes an element declares; the empty prefix is the default namespace\<close>
  "ns_decls a = concat (map (\<lambda>(k, v).
       if k = ''xmlns'' then [('''', py_str v)]
       else if take 6 k = ''xmlns:'' then [(drop 6 k, py_str v)] else []) a)"

definition qualify_tag :: "(string \<times> string) list \<Rightarrow> qname \<Rightarrow> qname" where
  "qualify_tag env t = (if fst t = [] then
       (case map_of env '''' of Some u \<Rightarrow> (u, snd t) | None \<Rightarrow> t) else t)"

definition qualify_attr :: "(string \<times> string) list \<Rightarrow> string \<Rightarrow> string" where
  "qualify_attr env k = (if CHR '':'' \<in> set k then
       (case map_of env (takeWhile (\<lambda>c. c \<noteq> CHR '':'') k) of
          Some u \<Rightarrow> ''{'' @ u @ ''}'' @ tl (dropWhile (\<lambda>c. c \<noteq> CHR '':'') k)
        | None \<Rightarrow> k)
     else k)"

definition parsed_attrs ::
  "(string \<times> string) list \<Rightarrow> (string \<times> string option) list \<Rightarrow> (string \<times> string option) list"
where
  "parsed_attrs env a = concat (map (\<lambda>(k, v).
       if k = ''xmlns'' \<or> take 6 k = ''xmlns:'' then [] else [(qualify_attr env k, v)]) a)"

definition parsed_text :: "nat \<Rightarrow> string option \<Rightarrow> elem list \<Rightarrow> string option" where
  \<comment> \<open>the text of an element at depth \<open>d\<close> after pretty-printing: its own text when it has
      no children (none when that is empty), else the line break and indentation written
      before its first child\<close>
  "parsed_text d x cs =
     (let ind = CHR 0x0A # replicate (2 * (d + 1)) CHR '' '';
          data = (case x of Some s \<Rightarrow> xml_newlines s | None \<Rightarrow> [])
      in if cs = [] then (if data = [] then None else Some data)
         else Some ((if data = [] then [] else ind @ data) @ ind))"

fun reparse :: "(string \<times> string) list \<Rightarrow> nat \<Rightarrow> elem \<Rightarrow> elem" where
  "reparse env d (Elem t a x cs) =
     (let env' = ns_decls a @ env
      in Elem (qualify_tag env' t) (parsed_attrs env' a) (parsed_text d x cs)
           (map (reparse env' (d + 1)) cs))"

definition prettify :: "elem \<Rightarrow> py_error + elem" where
  "prettify e = (if attr_none e then Inl TypeError
     else if \<not> chars_ok e then Inl ExpatError
     else Inr (reparse [] 0 e))"

section \<open>Encoding (CSVtoQTI2.py, create_qti_zip)\<close>

text \<open>
  The input is what \<open>csv.DictReader\<close> yields: the header names, or \<open>None\<close> for an empty
  file, and the data rows as lists of cells. A row dictionary maps a header name to its cell,
  and to \<open>None\<close> when the row is too short to have one.
\<close>

type_synonym csv_dict = "string \<Rightarrow> string option option"

definition dict_row :: "string list \<Rightarrow> string list \<Rightarrow> csv_dict" where
  "dict_row fieldnames cells =
     map_of (rev (zip fieldnames
                      (map Some cells @ replicate (length fieldnames - length cells) None)))"

definition row_get :: "csv_dict \<Rightarrow> string \<Rightarrow> string option \<Rightarrow> string option" where
  \<comment> \<open>\<open>row.get(key, default)\<close>\<close>
  "row_get row k d = (case row k of Some v \<Rightarrow> v | None \<Rightarrow> d)"

datatype warning =
    InvalidPoints nat "string option"   \<comment> \<open>Row n: Invalid points value '...'. Defaulting to 0.\<close>
  | NoOptions nat "string option"       \<comment> \<open>Row n: Question '...' has no answer options detected.\<close>
  | UnknownType nat string              \<comment> \<open>Row n: Unknown Type '...'. Defaulting to MC.\<close>
  | MissingCorrect nat                  \<comment> \<open>Row n: Missing or non-numeric Correct Answer. ...\<close>
  | OutOfRange nat string nat           \<comment> \<open>Row n: Correct Answer '...' is out of range (1-k).\<close>

record 'f enc_state =
  total_points :: 'f
  warnings :: "warning list"
  question_count :: nat
  items :: "elem list"               \<comment> \<open>the children of \<open>section\<close>\<close>
  uuid_calls :: nat                  \<comment> \<open>how many identifiers have been drawn\<close>

definition el :: "string \<Rightarrow> (string \<times> string) list \<Rightarrow> string option \<Rightarrow> elem list \<Rightarrow> elem" where
  \<comment> \<open>an element without a namespace whose attribute values are strings\<close>
  "el t a x cs = Elem ('''', t) (map (\<lambda>(k, v). (k, Some v)) a) x cs"

definition parse_points :: "'f pylib \<Rightarrow> csv_dict \<Rightarrow> nat \<Rightarrow> py_error + ('f \<times> warning list)" where
  \<comment> \<open>\<open>float(row.get('Points', 0))\<close> under \<open>except ValueError\<close>\<close>
  "parse_points L row row_num = (case row ''Points'' of
       None \<Rightarrow> Inr (float_zero L, [])
     | Some None \<Rightarrow> Inl TypeError
     | Some (Some s) \<Rightarrow>
         (case float_of L s of
            Some x \<Rightarrow> Inr (x, [])
          | None \<Rightarrow> Inr (float_zero L, [InvalidPoints row_num (Some s)])))"

fun option_values :: "csv_dict \<Rightarrow> nat list \<Rightarrow> py_error + string list" where
  \<comment> \<open>the loop \<open>for x in range(1, 6)\<close> that collects the non-blank options\<close>
  "option_values row [] = Inr []"
| "option_values row (x # xs) =
     (case row_get row (''Option '' @ str_nat x) (Some '''') of
        None \<Rightarrow> Inl AttributeError
      | Some v \<Rightarrow>
          (case option_values row xs of
             Inl e \<Rightarrow> Inl e
           | Inr answers \<Rightarrow>
               Inr (let val = py_strip v in if val \<noteq> [] then val # answers else answers)))"

definition build_answers ::
  "csv_dict \<Rightarrow> nat \<Rightarrow> string option \<Rightarrow> string \<Rightarrow> py_error + (string list \<times> warning list)"
where
  "build_answers row row_num title q_type =
     (if q_type = ''TF'' then Inr ([''True'', ''False''], [])
      else if q_type = ''MC'' then
        (case option_values row [1 ..< 6] of
           Inl e \<Rightarrow> Inl e
         | Inr answers \<Rightarrow>
             Inr (answers, if answers = [] then [NoOptions row_num title] else []))
      else Inr ([], [UnknownType row_num q_type]))"

definition parse_correct :: "csv_dict \<Rightarrow> nat \<Rightarrow> nat \<Rightarrow> py_error + (int \<times> warning list)" where
  \<comment> \<open>step 4; the result is \<open>correct_idx\<close>, with \<open>-1\<close> for no correct answer\<close>
  "parse_correct row row_num n =
     (case row_get row ''Correct Answer'' (Some '''') of
        None \<Rightarrow> Inl AttributeError
      | Some v \<Rightarrow>
          (let raw_correct = py_strip v
           in case (if py_isdigit raw_correct
                    then (case py_int raw_correct of
                            None \<Rightarrow> Inl ValueError
                          | Some k \<Rightarrow> Inr (int k - 1, []))
                    else Inr (- 1, [MissingCorrect row_num])) of
                Inl e \<Rightarrow> Inl e
              | Inr (correct_idx, w) \<Rightarrow>
                  if correct_idx \<noteq> - 1 then
                    (if correct_idx < 0 \<or> correct_idx \<ge> int n
                     then Inr (- 1, w @ [OutOfRange row_num raw_correct n])
                     else Inr (correct_idx, w))
                  else Inr (correct_idx, w)))"

definition q_type_str :: "string \<Rightarrow> string" where
  "q_type_str q_type =
     (if q_type = ''TF'' then ''true_false_question'' else ''multiple_choice_question'')"

definition add_feedback :: "string \<Rightarrow> string option \<Rightarrow> elem list" where
  \<comment> \<open>the elements \<open>add_feedback(ident, text)\<close> appends to the item. The keyword argument
      \<open>text=\<close> of \<open>ET.Element\<close> is one more attribute, not the element's text.\<close>
  "add_feedback ident txt = (case txt of
       None \<Rightarrow> []
     | Some t \<Rightarrow>
         if t = [] then []
         else [el ''itemfeedback'' [(''ident'', ident)] None
                 [el ''flow_mat'' [] None
                    [el ''material'' [] None
                       [el ''mattext'' [(''texttype'', ''text/html''),
                                        (''text'', ''<p>'' @ t @ ''</p>'')] None []]]]])"

definition item_metadata :: "'f pylib \<Rightarrow> string \<Rightarrow> 'f \<Rightarrow> elem" where
  \<comment> \<open>the \<open>itemmetadata\<close> element with the type field and the points field\<close>
  "item_metadata L q_type points =
     el ''itemmetadata'' [] None
       [el ''qtimetadata'' [] None
          [el ''qtimetadatafield'' [] None
             [el ''fieldlabel'' [] (Some ''question_type'') [],
              el ''fieldentry'' [] (Some (q_type_str q_type)) []],
           el ''qtimetadatafield'' [] None
             [el ''fieldlabel'' [] (Some ''points_possible'') [],
              el ''fieldentry'' [] (Some (float_str L points)) []]]]"

definition answer_label :: "string \<times> string \<Rightarrow> elem" where
  \<comment> \<open>the \<open>response_label\<close> of an answer, from its identifier and its text\<close>
  "answer_label = (\<lambda>(a_id, ans_text).
     el ''response_label'' [(''ident'', a_id)] None
       [el ''material'' [] None
          [el ''mattext'' [(''texttype'', ''text/plain'')] (Some ans_text) []]])"

definition item_presentation :: "string option \<Rightarrow> string list \<Rightarrow> string list \<Rightarrow> elem" where
  "item_presentation body answer_ids answers =
     el ''presentation'' [] None
       [el ''material'' [] None
          [el ''mattext'' [(''texttype'', ''text/html'')]
             (Some (''<div><p>'' @ py_str body @ ''</p></div>'')) []],
        el ''response_lid'' [(''ident'', ''response1''), (''rcardinality'', ''Single'')] None
          [el ''render_choice'' [] None (map answer_label (zip answer_ids answers))]]"

definition item_resprocessing :: "string list \<Rightarrow> int \<Rightarrow> elem" where
  \<comment> \<open>the outcome variable and, unless \<open>correct_idx\<close> is \<open>-1\<close>, the scoring rule\<close>
  "item_resprocessing answer_ids correct_idx =
     el ''resprocessing'' [] None
       (el ''outcomes'' [] None
          [el ''decvar'' [(''maxvalue'', ''100''), (''minvalue'', ''0''),
                          (''varname'', ''SCORE''), (''vartype'', ''Decimal'')] None []]
        # (if correct_idx \<noteq> - 1 then
             [el ''respcondition'' [(''continue'', ''No'')] None
                [el ''conditionvar'' [] None
                   [el ''varequal'' [(''respident'', ''response1'')]
                      (Some (answer_ids ! nat correct_idx)) []],
                 el ''setvar'' [(''action'', ''Set''), (''varname'', ''SCORE'')]
                   (Some ''100'') []]]
           else []))"

definition item_feedback :: "csv_dict \<Rightarrow> string \<Rightarrow> string list \<Rightarrow> elem list" where
  \<comment> \<open>the feedback blocks, in the order of the calls of \<open>add_feedback\<close>\<close>
  "item_feedback row q_type answer_ids =
     add_feedback ''general_fb'' (row_get row ''General Feedback'' None)
     @ add_feedback ''correct_fb'' (row_get row ''Correct Feedback'' None)
     @ add_feedback ''general_incorrect_fb'' (row_get row ''Incorrect Feedback'' None)
     @ (if q_type \<noteq> ''TF'' then
          concat (map (\<lambda>x. if x - 1 < length answer_ids
                            then add_feedback (answer_ids ! (x - 1) @ ''_fb'')
                                   (row_get row (''Feedback '' @ str_nat x) None)
                            else [])
                      [1 ..< 6])
        else [])"

definition build_item ::
  "'f pylib \<Rightarrow> nat \<Rightarrow> csv_dict \<Rightarrow> string \<Rightarrow> string option \<Rightarrow> string option \<Rightarrow> 'f
     \<Rightarrow> string list \<Rightarrow> int \<Rightarrow> elem"
where
  \<comment> \<open>step 5; \<open>c\<close> is the number of identifiers drawn before the item's own\<close>
  "build_item L c row q_type title body points answers correct_idx =
     (let answer_ids = map (\<lambda>k. ''i'' @ uuid_hex L (c + 1 + k)) [0 ..< length answers]
      in Elem ('''', ''item'') [(''ident'', Some (''i'' @ uuid_hex L c)), (''title'', title)] None
           ([item_metadata L q_type points,
             item_presentation body answer_ids answers,
             item_resprocessing answer_ids correct_idx]
            @ item_feedback row q_type answer_ids))"

definition encode_row ::
  "'f pylib \<Rightarrow> nat \<Rightarrow> csv_dict \<Rightarrow> 'f enc_state \<Rightarrow> py_error + 'f enc_state"
where
  \<comment> \<open>the body of \<open>for i, row in enumerate(reader)\<close>\<close>
  "encode_row L i row st =
     (let row_num = i + 2
      in case row_get row ''Type'' (Some ''MC'') of
           None \<Rightarrow> Inl AttributeError
         | Some ty \<Rightarrow>
             (let q_type = py_strip (py_upper ty);
                  title = row_get row ''Title'' (Some (''Question '' @ str_nat (i + 1)));
                  body = row_get row ''Question Body'' (Some '''')
              in case parse_points L row row_num of
                   Inl e \<Rightarrow> Inl e
                 | Inr (points, w1) \<Rightarrow>
                     (case build_answers row row_num title q_type of
                        Inl e \<Rightarrow> Inl e
                      | Inr (answers, w2) \<Rightarrow>
                          (case parse_correct row row_num (length answers) of
                             Inl e \<Rightarrow> Inl e
                           | Inr (correct_idx, w3) \<Rightarrow>
                               Inr \<lparr>total_points = float_add L (total_points st) points,
                                    warnings = warnings st @ w1 @ w2 @ w3,
                                    question_count = question_count st + 1,
                                    items = items st @
                                      [build_item L (uuid_calls st) row q_type title body points
                                         answers correct_idx],
                                    uuid_calls = uuid_calls st + 1 + length answers\<rparr>))))"

fun encode_rows ::
  "'f pylib \<Rightarrow> nat \<Rightarrow> csv_dict list \<Rightarrow> 'f enc_state \<Rightarrow> py_error + 'f enc_state"
where
  "encode_rows L i [] st = Inr st"
| "encode_rows L i (row # rows) st =
     (case encode_row L i row st of
        Inl e \<Rightarrow> Inl e
      | Inr st' \<Rightarrow> encode_rows L (i + 1) rows st')"

datatype 'f enc_result =
    ReadFailed py_error
      \<comment> \<open>CRITICAL ERROR: Failed to read CSV; the function returns before it writes anything\<close>
  | Finished (warnings_of: "warning list") (zip_of: "(string \<times> elem) list")
             (write_error: "py_error option") (questions_of: nat) (points_of: 'f)
      \<comment> \<open>the warnings printed, the entries written to the archive, the error that stopped
          the writing if one did, and the two totals\<close>

fun write_entries :: "(string \<times> elem) list \<Rightarrow> (string \<times> elem) list \<times> py_error option" where
  \<comment> \<open>\<open>zf.writestr(name, prettify(tree))\<close> for each document, up to the first failure\<close>
  "write_entries [] = ([], None)"
| "write_entries ((name, tree) # rest) =
     (case prettify tree of
        Inl e \<Rightarrow> ([], Some e)
      | Inr doc \<Rightarrow> (case write_entries rest of (zs, err) \<Rightarrow> ((name, doc) # zs, err)))"

definition qti_root :: "string \<Rightarrow> string \<Rightarrow> elem list \<Rightarrow> elem" where
  "qti_root assessment_id quiz_title section_items =
     el ''questestinterop''
       [(''xmlns'', ''http://www.imsglobal.org/xsd/ims_qtiasiv1p2''),
        (''xmlns:xsi'', ''http://www.w3.org/2001/XMLSchema-instance''),
        (''xsi:schemaLocation'', ''http://www.imsglobal.org/xsd/ims_qtiasiv1p2 http://www.imsglobal.org/xsd/ims_qtiasiv1p2p1.xsd'')]
       None
       [el ''assessment'' [(''ident'', assessment_id), (''title'', quiz_title)] None
          [el ''section'' [(''ident'', ''root_section'')] None section_items]]"

definition manifest_doc :: "string \<Rightarrow> string \<Rightarrow> string \<Rightarrow> elem" where
  "manifest_doc manifest_id assessment_id dependency_id =
     el ''manifest''
       [(''identifier'', manifest_id),
        (''xmlns'', ''http://www.imsglobal.org/xsd/imsccv1p1/imscp_v1p1''),
        (''xmlns:imsmd'', ''http://www.imsglobal.org/xsd/imsmd_v1p2'')]
       None
       [el ''resources'' [] None
          [el ''resource'' [(''identifier'', ''res_'' @ assessment_id), (''type'', ''imsqti_xmlv1p2'')]
             None
             [el ''file'' [(''href'', assessment_id @ ''/'' @ assessment_id @ ''.xml'')] None [],
              el ''dependency'' [(''identifierref'', dependency_id)] None []],
           el ''resource''
             [(''identifier'', dependency_id),
              (''type'', ''associatedcontent/imscc_xmlv1p1/learning-application-resource''),
              (''href'', assessment_id @ ''/assessment_meta.xml'')]
             None
             [el ''file'' [(''href'', assessment_id @ ''/assessment_meta.xml'')] None []]]]"

definition meta_root :: "'f pylib \<Rightarrow> string \<Rightarrow> string \<Rightarrow> 'f \<Rightarrow> elem" where
  "meta_root L assessment_id quiz_title total_pts =
     el ''quiz''
       [(''xmlns'', ''http://canvas.instructure.com/xsd/cccv1p0''), (''identifier'', assessment_id)]
       None
       [el ''title'' [] (Some quiz_title) [],
        el ''points_possible'' [] (Some (float_str L total_pts)) [],
        el ''quiz_type'' [] (Some ''assignment'') []]"

definition create_qti_zip ::
  "'f pylib \<Rightarrow> string \<Rightarrow> string list option \<Rightarrow> string list list \<Rightarrow> 'f enc_result"
where
  \<comment> \<open>\<open>quiz_title\<close> is the base name of \<open>csv_path\<close>. \<open>DictReader\<close> passes over rows
      without cells. Iterating over the header of an empty file raises TypeError.\<close>
  "create_qti_zip L quiz_title header rows =
     (let assessment_id = ''i'' @ uuid_hex L 0;
          manifest_id = ''i'' @ uuid_hex L 1;
          dependency_id = ''i'' @ uuid_hex L 2
      in case header of
           None \<Rightarrow> ReadFailed TypeError
         | Some names \<Rightarrow>
             (case encode_rows L 0
                     (map (dict_row (map py_strip names)) (filter (\<lambda>cells. cells \<noteq> []) rows))
                     \<lparr>total_points = float_zero L, warnings = [], question_count = 0,
                      items = [], uuid_calls = 3\<rparr> of
                Inl e \<Rightarrow> ReadFailed e
              | Inr st \<Rightarrow>
                  (case write_entries
                          [(''imsmanifest.xml'',
                            manifest_doc manifest_id assessment_id dependency_id),
                           (assessment_id @ ''/'' @ assessment_id @ ''.xml'',
                            qti_root assessment_id quiz_title (items st)),
                           (assessment_id @ ''/assessment_meta.xml'',
                            meta_root L assessment_id quiz_title (total_points st))] of
                     (zs, err) \<Rightarrow>
                       Finished (warnings st) zs err (question_count st) (total_points st))))"

definition read_zip :: "(string \<times> elem) list \<Rightarrow> (string \<times> elem option) list" where
  \<comment> \<open>the archive the encoder wrote, as the decoder opens it\<close>
  "read_zip zs = map (\<lambda>(name, doc). (name, Some doc)) zs"

section \<open>A library instance for evaluation\<close>

text \<open>
  To run the model at a concrete input the library record needs a value. In this one a float
  is a whole number below \<open>10^15\<close>: \<open>float_of\<close> reads one to fifteen decimal digits,
  with or without a final \<open>.0\<close>, and rejects every other string (Python also reads signs,
  other fractions, exponents, surrounding blanks, \<open>inf\<close> and \<open>nan\<close>; no input below has
  one), \<open>str\<close> prints \<open>5.0\<close> and the two-decimal format prints \<open>5.00\<close>. The entity
  substitution knows \<open>&lt;\<close>, \<open>&gt;\<close> and \<open>&amp;\<close>. The \<open>k\<close>-th identifier is
  \<open>k\<close> in 32 hexadecimal digits.
\<close>

definition sample_float_of :: "string \<Rightarrow> nat option" where
  "sample_float_of s =
     (let digits = (if endswith s ''.0'' then take (length s - 2) s else s)
      in if length digits \<le> 15 then py_int digits else None)"

definition sample_float_str :: "nat \<Rightarrow> string" where
  "sample_float_str n = str_nat n @ ''.0''"

definition sample_float_fmt2 :: "nat \<Rightarrow> string" where
  "sample_float_fmt2 n = str_nat n @ ''.00''"

fun sample_charref_sub :: "string \<Rightarrow> string" where
  "sample_charref_sub [] = []"
| "sample_charref_sub (c # cs) =
     (if c = CHR ''&'' \<and> take 3 cs = ''lt;'' then CHR ''<'' # sample_charref_sub (drop 3 cs)
      else if c = CHR ''&'' \<and> take 3 cs = ''gt;'' then CHR ''>'' # sample_charref_sub (drop 3 cs)
      else if c = CHR ''&'' \<and> take 4 cs = ''amp;'' then CHR ''&'' # sample_charref_sub (drop 4 cs)
      else c # sample_charref_sub cs)"

fun hex_digits :: "nat \<Rightarrow> string" where
  "hex_digits n = (if n < 16 then [''0123456789abcdef'' ! n]
     else hex_digits (n div 16) @ [''0123456789abcdef'' ! (n mod 16)])"

declare hex_digits.simps [simp del]

definition sample_uuid_hex :: "nat \<Rightarrow> string" where
  "sample_uuid_hex k = (let h = hex_digits k in replicate (32 - length h) CHR ''0'' @ h)"

definition py_sample :: "nat pylib" where
  "py_sample = \<lparr>float_of = sample_float_of, float_str = sample_float_str,
     float_fmt2 = sample_float_fmt2, float_add = (+), float_zero = 0,
     charref_sub = sample_charref_sub, uuid_hex = sample_uuid_hex\<rparr>"

section \<open>Notions used in the statements\<close>

fun declared_type_from :: "string \<Rightarrow> elem list \<Rightarrow> string option \<Rightarrow> string option" where
  \<comment> \<open>the value of \<open>q_type_metadata\<close> after the loop over the metadata fields; \<open>ns\<close> is the
      namespace of the document\<close>
  "declared_type_from ns [] q = q"
| "declared_type_from ns (field # rest) q =
     declared_type_from ns rest
       (if py_text_is (find_child (ns, ''fieldlabel'') field) ''question_type''
        then (case find_child (ns, ''fieldentry'') field of
                Some e \<Rightarrow> text_of e
              | None \<Rightarrow> Some '''')
        else q)"

definition declared_type_in :: "string \<Rightarrow> elem \<Rightarrow> string option" where
  "declared_type_in ns item =
     declared_type_from ns (findall_desc (ns, ''qtimetadatafield'') item) (Some '''')"

definition declared_type :: "elem \<Rightarrow> string option" where
  \<comment> \<open>the question type an item of a parsed document declares; the empty string when it
      declares none\<close>
  "declared_type item = declared_type_in ims_ns item"

definition row_of :: "'f pylib \<Rightarrow> elem \<Rightarrow> row" where
  \<comment> \<open>the row written for an item whose metadata scan returns\<close>
  "row_of L item =
     (case scan_metadata L (findall_desc (ims ''qtimetadatafield'') item) (Some '''', '''') of
        Inr (q, points) \<Rightarrow> extract_row L item points
      | Inl e \<Rightarrow> empty_row)"

definition points_value :: "'f pylib \<Rightarrow> csv_dict \<Rightarrow> 'f" where
  \<comment> \<open>the \<open>points\<close> of a row: its parsed \<open>Points\<close> cell, or \<open>0.0\<close>\<close>
  "points_value L row = (case row ''Points'' of
       Some (Some s) \<Rightarrow> (case float_of L s of Some x \<Rightarrow> x | None \<Rightarrow> float_zero L)
     | _ \<Rightarrow> float_zero L)"

definition written_total :: "string \<Rightarrow> (string \<times> elem) list \<Rightarrow> string option" where
  \<comment> \<open>the text of \<open>points_possible\<close> in the metadata document \<open>name\<close> of an archive\<close>
  "written_total name zs = (case map_of (rev zs) name of
       None \<Rightarrow> None
     | Some doc \<Rightarrow>
         (case find_child (''http://canvas.instructure.com/xsd/cccv1p0'', ''points_possible'') doc of
            Some e \<Rightarrow> text_of e
          | None \<Rightarrow> None))"

definition qti_env :: "(string \<times> string) list" where
  \<comment> \<open>the namespace declarations in scope below the root of the assessment document\<close>
  "qti_env = [('''', ims_ns), (''xsi'', ''http://www.w3.org/2001/XMLSchema-instance'')]"

definition plain_tree :: "elem \<Rightarrow> bool" where
  \<comment> \<open>a built tree without namespaces: no element has one or declares one\<close>
  "plain_tree e = list_all (\<lambda>x. fst (tag x) = [] \<and> ns_decls (attrib x) = []) (iter e)"

definition plain_text :: "string \<Rightarrow> bool" where
  \<comment> \<open>text without markup, entities or carriage returns\<close>
  "plain_text s = (CHR ''<'' \<notin> set s \<and> CHR ''&'' \<notin> set s \<and> CHR 0x0D \<notin> set s)"

definition q_type_of :: "csv_dict \<Rightarrow> string" where
  \<comment> \<open>the type of the question record of a row\<close>
  "q_type_of row = py_strip (py_upper (py_str (row_get row ''Type'' (Some ''MC''))))"

definition answers_of :: "csv_dict \<Rightarrow> string list" where
  \<comment> \<open>its options\<close>
  "answers_of row = (case build_answers row 0 None (q_type_of row) of
       Inr (answers, w) \<Rightarrow> answers
     | Inl e \<Rightarrow> [])"

definition correct_of :: "csv_dict \<Rightarrow> int" where
  \<comment> \<open>its correct index, counted from 0, or \<open>-1\<close> for none\<close>
  "correct_of row = (case parse_correct row 0 (length (answers_of row)) of
       Inr (correct_idx, w) \<Rightarrow> correct_idx
     | Inl e \<Rightarrow> - 1)"

definition body_of :: "csv_dict \<Rightarrow> string" where
  "body_of row = py_str (row_get row ''Question Body'' (Some ''''))"

fun built_items :: "'f pylib \<Rightarrow> nat \<Rightarrow> nat \<Rightarrow> csv_dict list \<Rightarrow> elem list" where
  \<comment> \<open>the items the loop builds for rows it accepts, from row index \<open>i\<close> and with \<open>c\<close>
      identifiers drawn so far\<close>
  "built_items L i c [] = []"
| "built_items L i c (row # rows) =
     build_item L c row (q_type_of row)
       (row_get row ''Title'' (Some (''Question '' @ str_nat (i + 1))))
       (row_get row ''Question Body'' (Some '''')) (points_value L row) (answers_of row)
       (correct_of row)
     # built_items L (i + 1) (c + 1 + length (answers_of row)) rows"

definition round_trip_row :: "'f pylib \<Rightarrow> csv_dict \<Rightarrow> bool" where
  \<comment> \<open>a row within the round trip: one to five options, options and body plain text, the
      options not mistaken for another type, and points that \<open>str\<close> and \<open>float\<close> carry\<close>
  "round_trip_row L row =
     (answers_of row \<noteq> []
      \<and> list_all plain_text (answers_of row)
      \<and> plain_text (body_of row)
      \<and> detect_type (answers_of row) = q_type_of row
      \<and> float_str L (points_value L row) \<noteq> []
      \<and> CHR 0x0D \<notin> set (float_str L (points_value L row))
      \<and> float_of L (float_str L (points_value L row)) = Some (points_value L row))"

definition ids_drawn :: "csv_dict list \<Rightarrow> nat" where
  \<comment> \<open>how many identifiers a run over these rows draws\<close>
  "ids_drawn rows = 3 + sum_list (map (\<lambda>row. 1 + length (answers_of row)) rows)"

definition ids_ok :: "'f pylib \<Rightarrow> nat \<Rightarrow> bool" where
  \<comment> \<open>the first \<open>n\<close> identifiers are distinct and free of carriage returns, and the
      assessment file named after the first is taken for the assessment document\<close>
  "ids_ok L n =
     (distinct (map (uuid_hex L) [0 ..< n])
      \<and> list_all (\<lambda>k. CHR 0x0D \<notin> set (uuid_hex L k)) [0 ..< n]
      \<and> is_qti_file ((''i'' @ uuid_hex L 0) @ ''/'' @ (''i'' @ uuid_hex L 0) @ ''.xml''))"

section \<open>Example documents\<close>

definition pel :: "string \<Rightarrow> (string \<times> string) list \<Rightarrow> string option \<Rightarrow> elem list \<Rightarrow> elem" where
  \<comment> \<open>an element of a parsed document, in the QTI namespace\<close>
  "pel t a x cs = Elem (ims t) (map (\<lambda>(k, v). (k, Some v)) a) x cs"

definition metadata_field :: "string \<Rightarrow> string option \<Rightarrow> elem" where
  "metadata_field label entry_text =
     pel ''qtimetadatafield'' [] None
       [pel ''fieldlabel'' [] (Some label) [], pel ''fieldentry'' [] entry_text []]"

definition choice :: "string \<Rightarrow> string \<Rightarrow> elem" where
  "choice ident answer =
     pel ''response_label'' [(''ident'', ident)] None
       [pel ''material'' [] None [pel ''mattext'' [(''texttype'', ''text/plain'')] (Some answer) []]]"

definition example_item ::
  "string \<Rightarrow> string option \<Rightarrow> string option \<Rightarrow> string \<Rightarrow> elem list \<Rightarrow> string \<Rightarrow> elem"
where
  \<comment> \<open>an item with both metadata fields, a body, choices and one scoring rule\<close>
  "example_item title q_type points body choices correct_id =
     pel ''item'' [(''ident'', ''item-'' @ title), (''title'', title)] None
       [pel ''itemmetadata'' [] None
          [pel ''qtimetadata'' [] None
             [metadata_field ''question_type'' q_type, metadata_field ''points_possible'' points]],
        pel ''presentation'' [] None
          [pel ''material'' [] None [pel ''mattext'' [(''texttype'', ''text/html'')] (Some body) []],
           pel ''response_lid'' [(''ident'', ''response1''), (''rcardinality'', ''Single'')] None
             [pel ''render_choice'' [] None choices]],
        pel ''resprocessing'' [] None
          [pel ''outcomes'' [] None [pel ''decvar'' [(''varname'', ''SCORE'')] None []],
           pel ''respcondition'' [(''continue'', ''No'')] None
             [pel ''conditionvar'' [] None
                [pel ''varequal'' [(''respident'', ''response1'')] (Some correct_id) []],
              pel ''setvar'' [(''action'', ''Set''), (''varname'', ''SCORE'')] (Some ''100'') []]]]"

definition example_archive :: "elem list \<Rightarrow> (string \<times> elem option) list" where
  "example_archive section_items =
     [(''imsmanifest.xml'', Some (Elem ('''', ''manifest'') [] None [])),
      (''quiz/quiz.xml'',
       Some (pel ''questestinterop'' [] None
               [pel ''assessment'' [(''ident'', ''quiz''), (''title'', ''Quiz'')] None
                  [pel ''section'' [(''ident'', ''root_section'')] None section_items]])),
      (''quiz/assessment_meta.xml'', Some (Elem ('''', ''quiz'') [] None []))]"

definition mc_item :: elem where
  "mc_item = example_item ''Q1'' (Some ''multiple_choice_question'') (Some ''5'')
     ''<div><p>2+2=?</p></div>'' [choice ''a1'' ''3'', choice ''a2'' ''4'', choice ''a3'' ''5''] ''a2''"

definition essay_item :: elem where
  "essay_item = example_item ''Q2'' (Some ''essay_question'') (Some ''10'')
     ''<div><p>Discuss.</p></div>'' [] ''none''"

definition tf_item_marked_mc :: elem where
  \<comment> \<open>a true/false item whose metadata field reads \<open>multiple_choice_question\<close>\<close>
  "tf_item_marked_mc = example_item ''Q3'' (Some ''multiple_choice_question'') (Some ''1'')
     ''<div><p>The sky is blue.</p></div>'' [choice ''t'' ''True'', choice ''f'' ''False''] ''t''"

definition item_unparseable_points :: elem where
  "item_unparseable_points = example_item ''Q4'' (Some ''multiple_choice_question'') (Some ''abc'')
     ''<div><p>1+1=?</p></div>'' [choice ''b1'' ''2'', choice ''b2'' ''3''] ''b1''"

definition item_empty_points :: elem where
  \<comment> \<open>the same item with \<open><fieldentry/>\<close> under \<open>points_possible\<close>\<close>
  "item_empty_points = example_item ''Q5'' (Some ''multiple_choice_question'') None
     ''<div><p>1+1=?</p></div>'' [choice ''b1'' ''2'', choice ''b2'' ''3''] ''b1''"

definition csv_header :: "string list" where
  "csv_header = [''Type'', ''Title'', ''Points'', ''Question Body'', ''Correct Answer'',
     ''Option 1'', ''Option 2'', ''Option 3'', ''Option 4'', ''Option 5'',
     ''General Feedback'', ''Correct Feedback'', ''Incorrect Feedback'',
     ''Feedback 1'', ''Feedback 2'', ''Feedback 3'', ''Feedback 4'', ''Feedback 5'']"

definition example_cells ::
  "string \<Rightarrow> string \<Rightarrow> string \<Rightarrow> string \<Rightarrow> string \<Rightarrow> string list \<Rightarrow> string list \<Rightarrow> string list
     \<Rightarrow> string list"
where
  \<comment> \<open>a full row under \<open>csv_header\<close>: five leading cells, five option cells, the general,
      correct and incorrect feedback, five per-option feedback cells\<close>
  "example_cells ty title points body correct options general feedbacks =
     [ty, title, points, body, correct] @ take 5 (options @ replicate 5 '''')
     @ take 3 (general @ replicate 3 '''') @ take 5 (feedbacks @ replicate 5 '''')"

definition enc_start :: "'f pylib \<Rightarrow> 'f enc_state" where
  \<comment> \<open>the state in which \<open>create_qti_zip\<close> enters its loop\<close>
  "enc_start L = \<lparr>total_points = float_zero L, warnings = [], question_count = 0, items = [],
     uuid_calls = 3\<rparr>"

definition spec_cells :: "string list" where
  \<comment> \<open>the row of the specification's end-to-end example\<close>
  "spec_cells = example_cells ''MC'' ''Q1'' ''5'' ''2+2=?'' ''2'' [''3'', ''4'', ''5''] [] []"

definition unknown_type_cells :: "string list" where
  "unknown_type_cells = example_cells ''essay'' ''Q1'' ''2'' ''Pick one'' ''1'' [''A'', ''B''] [] []"

definition tf_cells :: "string list" where
  \<comment> \<open>a true/false row with all three general feedback cells and two per-option ones\<close>
  "tf_cells = example_cells ''tf'' ''Q1'' ''1'' ''The sky is blue.'' ''1'' []
     [''Read chapter 2.'', ''Right.'', ''Wrong.''] [''Yes'', ''No'']"

definition zero_cells :: "string list" where
  "zero_cells = example_cells ''MC'' ''Q1'' ''1'' ''Pick one'' ''0'' [''A'', ''B''] [] []"

definition mc_true_false_cells :: "string list" where
  \<comment> \<open>a multiple-choice row whose two options are the words True and False\<close>
  "mc_true_false_cells =
     example_cells ''MC'' ''Q1'' ''1'' ''Is it so?'' ''2'' [''True'', ''False''] [] []"

definition markup_true_false_cells :: "string list" where
  \<comment> \<open>a multiple-choice row with the options \<open><i>True</i>\<close> and \<open>False\<close> and a general
      feedback\<close>
  "markup_true_false_cells =
     example_cells ''MC'' ''Q1'' ''1'' ''Is it so?'' ''2'' [''<i>True</i>'', ''False'']
       [''Read chapter 2.''] []"

definition second_cells :: "string list" where
  "second_cells = example_cells ''tf'' ''Q2'' ''2'' ''  The sky is blue. '' ''1'' [] [] []"

section \<open>Properties of the string operations\<close>

lemma re_sub_tags_plain: "CHR ''<'' \<notin> set s \<Longrightarrow> re_sub_tags s = s"
  by (induction s) auto

lemma html_unescape_plain: "CHR ''&'' \<notin> set s \<Longrightarrow> html_unescape L s = s"
  by (simp add: html_unescape_def)

lemma py_strip_ends:
  "py_strip s = [] \<or> (\<not> py_isspace (hd (py_strip s)) \<and> \<not> py_isspace (last (py_strip s)))"
proof (cases "py_strip s = []")
  case True
  then show ?thesis by simp
next
  case False
  let ?t = "dropWhile py_isspace s"
  let ?u = "dropWhile py_isspace (rev ?t)"
  have u: "py_strip s = rev ?u" by (simp add: py_strip_def)
  with False have une: "?u \<noteq> []" by simp
  then have last_ok: "\<not> py_isspace (hd ?u)" by (rule hd_dropWhile)
  have "rev ?t = takeWhile py_isspace (rev ?t) @ ?u" by simp
  then have "?t = rev ?u @ rev (takeWhile py_isspace (rev ?t))"
    by (metis rev_append rev_rev_ident)
  with une have hd_eq: "hd (rev ?u) = hd ?t" and tne: "?t \<noteq> []"
    by (metis hd_append2 rev_is_Nil_conv, metis append_is_Nil_conv rev_is_Nil_conv)
  from tne have "\<not> py_isspace (hd ?t)" by (rule hd_dropWhile)
  with hd_eq last_ok une u show ?thesis
    by (simp add: last_rev)
qed

lemma py_strip_fixed:
  assumes "s = [] \<or> (\<not> py_isspace (hd s) \<and> \<not> py_isspace (last s))"
  shows "py_strip s = s"
proof (cases s)
  case Nil
  then show ?thesis by (simp add: py_strip_def)
next
  case (Cons c cs)
  with assms have c: "\<not> py_isspace c" and l: "\<not> py_isspace (last s)" by auto
  from c Cons have "dropWhile py_isspace s = s" by simp
  moreover from l have "\<not> py_isspace (hd (rev s))"
    by (metis hd_rev)
  then have "dropWhile py_isspace (rev s) = rev s"
    by (simp only: dropWhile_eq_self_iff) blast
  ultimately show ?thesis by (simp add: py_strip_def)
qed

lemma py_strip_idem: "py_strip (py_strip s) = py_strip s"
  by (rule py_strip_fixed) (rule py_strip_ends)

lemma py_strip_set: "set (py_strip s) \<subseteq> set s"
proof -
  have "set (py_strip s) \<subseteq> set (dropWhile py_isspace s)"
    unfolding py_strip_def using set_dropWhileD by fastforce
  also have "\<dots> \<subseteq> set s" using set_dropWhileD by fastforce
  finally show ?thesis .
qed

section \<open>The text-cleaning function\<close>

text \<open>
  C2. \<open>clean_text\<close> returns the empty string for an absent or empty input, and its result
  never begins or ends with white space. On a string without an opening angle bracket and
  without an ampersand it only trims. It is idempotent on every input whose cleaned text
  contains neither of these two characters. (It is not idempotent on all strings, and a tag
  can remain in its result: see the counterexample.)
\<close>

theorem clean_text_contract:
  "clean_text L None = '''' \<and> clean_text L (Some '''') = ''''
   \<and> (clean_text L r = '''' \<or>
        (\<not> py_isspace (hd (clean_text L r)) \<and> \<not> py_isspace (last (clean_text L r))))
   \<and> (CHR ''<'' \<notin> set s \<and> CHR ''&'' \<notin> set s \<longrightarrow> clean_text L (Some s) = py_strip s)
   \<and> (CHR ''<'' \<notin> set (clean_text L (Some s)) \<and> CHR ''&'' \<notin> set (clean_text L (Some s))
        \<longrightarrow> clean_text L (Some (clean_text L (Some s))) = clean_text L (Some s))"
proof -
  have empty: "clean_text L None = '''' \<and> clean_text L (Some '''') = ''''"
    by (simp add: clean_text_def)
  have trimmed: "clean_text L r = '''' \<or>
      (\<not> py_isspace (hd (clean_text L r)) \<and> \<not> py_isspace (last (clean_text L r)))" for r
    using py_strip_ends by (auto simp: clean_text_def split: option.splits)
  have plain: "clean_text L (Some t) = py_strip t"
    if "CHR ''<'' \<notin> set t" and "CHR ''&'' \<notin> set t" for t
    using that by (simp add: clean_text_def re_sub_tags_plain html_unescape_plain py_strip_def)
  have idem: "clean_text L (Some (clean_text L (Some s))) = clean_text L (Some s)"
    if "CHR ''<'' \<notin> set (clean_text L (Some s))" and "CHR ''&'' \<notin> set (clean_text L (Some s))"
  proof -
    have "clean_text L (Some (clean_text L (Some s))) = py_strip (clean_text L (Some s))"
      using that by (rule plain)
    also have "\<dots> = clean_text L (Some s)"
      using trimmed [of "Some s"] by (intro py_strip_fixed) simp
    finally show ?thesis .
  qed
  from empty trimmed [of r] plain [of s] idem show ?thesis by blast
qed

theorem clean_text_contract_witness:
  "CHR ''<'' \<notin> set ''  2 + 2 = ? '' \<and> CHR ''&'' \<notin> set ''  2 + 2 = ? ''
   \<and> CHR ''<'' \<notin> set (clean_text py_sample (Some ''  2 + 2 = ? ''))
   \<and> CHR ''&'' \<notin> set (clean_text py_sample (Some ''  2 + 2 = ? ''))
   \<and> clean_text py_sample (Some ''  2 + 2 = ? '') \<noteq> []
   \<and> clean_text py_sample (Some ''  2 + 2 = ? '') = py_strip ''  2 + 2 = ? ''
   \<and> \<not> py_isspace (hd (clean_text py_sample (Some ''  2 + 2 = ? '')))
   \<and> \<not> py_isspace (last (clean_text py_sample (Some ''  2 + 2 = ? '')))
   \<and> clean_text py_sample (Some (clean_text py_sample (Some ''  2 + 2 = ? '')))
       = clean_text py_sample (Some ''  2 + 2 = ? '')"
proof -
  note contract =
    clean_text_contract [of py_sample "Some ''  2 + 2 = ? ''" "''  2 + 2 = ? ''"]
  have plain: "CHR ''<'' \<notin> set ''  2 + 2 = ? '' \<and> CHR ''&'' \<notin> set ''  2 + 2 = ? ''"
    by simp
  have cleaned: "clean_text py_sample (Some ''  2 + 2 = ? '') = ''2 + 2 = ?''"
    by code_simp
  have clean_plain: "CHR ''<'' \<notin> set (clean_text py_sample (Some ''  2 + 2 = ? ''))
      \<and> CHR ''&'' \<notin> set (clean_text py_sample (Some ''  2 + 2 = ? ''))"
    by (simp add: cleaned)
  have nonempty: "clean_text py_sample (Some ''  2 + 2 = ? '') \<noteq> []"
    by (simp add: cleaned)
  from contract plain clean_plain nonempty show ?thesis
    by blast
qed

theorem clean_text_not_idempotent:
  "clean_text py_sample (Some ''<<a>b>'') = ''<b>''
   \<and> clean_text py_sample (Some (clean_text py_sample (Some ''<<a>b>'')))
       \<noteq> clean_text py_sample (Some ''<<a>b>'')"
  by code_simp

section \<open>Decoding\<close>

lemma scan_declared:
  "scan_metadata L fs (q, p) = Inr (q', p') \<Longrightarrow> q' = declared_type_from ims_ns fs q"
  by (induction fs arbitrary: q p) (auto simp: Let_def split: option.splits if_splits)

lemma decode_item_cases:
  assumes "decode_item L item st = Inr st'"
  shows "(declared_type item \<notin> set supported_types \<and>
           st' = st\<lparr>printed := printed st @ [Skipping (declared_type item) (get item ''title'')],
                     skipped_count := skipped_count st + 1\<rparr>)
         \<or> (declared_type item \<in> set supported_types \<and>
           st' = st\<lparr>written := written st @ [row_of L item], count := count st + 1\<rparr>)"
  using assms scan_declared
  by (fastforce simp: decode_item_def declared_type_def declared_type_in_def row_of_def
        split: sum.splits prod.splits if_splits)

lemma decode_items_result:
  assumes "decode_items L its st = Inr st'"
  shows "skipped_count st' =
           skipped_count st + length (filter (\<lambda>it. declared_type it \<notin> set supported_types) its)
         \<and> written st' =
           written st @ map (row_of L) (filter (\<lambda>it. declared_type it \<in> set supported_types) its)
         \<and> count st' =
           count st + length (filter (\<lambda>it. declared_type it \<in> set supported_types) its)
         \<and> printed st' =
           printed st @ map (\<lambda>it. Skipping (declared_type it) (get it ''title''))
                            (filter (\<lambda>it. declared_type it \<notin> set supported_types) its)"
  using assms
proof (induction its arbitrary: st)
  case Nil
  then show ?case by simp
next
  case (Cons item its)
  from Cons.prems obtain st1 where
    step: "decode_item L item st = Inr st1" and rest: "decode_items L its st1 = Inr st'"
    by (auto split: sum.splits)
  from decode_item_cases [OF step] Cons.IH [OF rest] show ?case
    by auto
qed

text \<open>
  C8. When the conversion of an archive runs to its end, every item whose declared question
  type is not one of the three accepted names or the empty string is passed over: it gets no
  row, a message names it, and it is counted in the total the final warning reports. The
  other items are converted, in document order.
\<close>

theorem unsupported_items_skipped:
  assumes "filter is_qti_file (map fst z) = name # others"
    and "map_of (rev z) name = Some (Some root)"
    and "decode_items L (findall_desc (ims ''item'') root)
           \<lparr>written = [], count = 0, skipped_count = 0, printed = []\<rparr> = Inr st"
  shows "convert_qti_to_csv L z =
     (let its = findall_desc (ims ''item'') root;
          skipped = filter (\<lambda>it. declared_type it \<notin> set supported_types) its;
          kept = filter (\<lambda>it. declared_type it \<in> set supported_types) its
      in \<lparr>csv_rows = Some (map (row_of L) kept),
          console = map (\<lambda>it. Skipping (declared_type it) (get it ''title'')) skipped
            @ [Success (length kept)]
            @ (if length skipped > 0 then [SkippedWarning (length skipped)] else [])\<rparr>)"
  using assms decode_items_result [OF assms(3)]
  by (simp add: convert_qti_to_csv_def Let_def)

theorem unsupported_items_skipped_witness:
  "filter is_qti_file (map fst (example_archive [mc_item, essay_item, tf_item_marked_mc]))
     = [''quiz/quiz.xml'']
   \<and> declared_type essay_item = Some ''essay_question''
   \<and> console (convert_qti_to_csv py_sample (example_archive [mc_item, essay_item, tf_item_marked_mc]))
     = [Skipping (Some ''essay_question'') (Some ''Q2''), Success 2, SkippedWarning 1]
   \<and> csv_rows (convert_qti_to_csv py_sample (example_archive [mc_item, essay_item, tf_item_marked_mc]))
     = Some [row_of py_sample mc_item, row_of py_sample tf_item_marked_mc]"
proof -
  let ?z = "example_archive [mc_item, essay_item, tf_item_marked_mc]"
  let ?root = "pel ''questestinterop'' [] None
                 [pel ''assessment'' [(''ident'', ''quiz''), (''title'', ''Quiz'')] None
                    [pel ''section'' [(''ident'', ''root_section'')] None
                       [mc_item, essay_item, tf_item_marked_mc]]]"
  let ?init = "\<lparr>written = [], count = 0, skipped_count = 0, printed = []\<rparr>"
  have files: "filter is_qti_file (map fst ?z) = ''quiz/quiz.xml'' # []"
    by code_simp
  have root: "map_of (rev ?z) ''quiz/quiz.xml'' = Some (Some ?root)"
    by (simp add: example_archive_def)
  have its: "findall_desc (ims ''item'') ?root = [mc_item, essay_item, tf_item_marked_mc]"
    by code_simp
  have "\<not> isl (decode_items py_sample (findall_desc (ims ''item'') ?root) ?init)"
    by code_simp
  then have run: "decode_items py_sample (findall_desc (ims ''item'') ?root) ?init
      = Inr (projr (decode_items py_sample (findall_desc (ims ''item'') ?root) ?init))"
    by simp
  have types: "declared_type mc_item = Some ''multiple_choice_question''"
    "declared_type essay_item = Some ''essay_question''"
    "declared_type tf_item_marked_mc = Some ''multiple_choice_question''"
    by code_simp+
  have titles: "get essay_item ''title'' = Some ''Q2''"
    by code_simp
  from unsupported_items_skipped [OF files root run] files types titles show ?thesis
    by (simp add: its Let_def supported_types_def)
qed

lemma detect_type_options:
  "detect_type (map f (take 5 ls)) =
     (if length ls = 2 \<and> set (map (\<lambda>l. py_lower (f l)) ls) = {''true'', ''false''}
      then ''TF'' else ''MC'')"
proof (cases "length ls = 2")
  case True
  then obtain a b where ls: "ls = [a, b]"
    by (auto simp: length_Suc_conv numeral_2_eq_2)
  have ne: "''true'' \<noteq> ''false''"
    by simp
  show ?thesis
    unfolding ls detect_type_def Let_def using ne by (auto; metis)
next
  case False
  then have "length (take 5 ls) \<noteq> 2" by auto
  with False show ?thesis
    by (simp add: detect_type_def Let_def)
qed

text \<open>
  C3. The type written for an item comes from its options alone: \<open>TF\<close> when the item has
  exactly two options whose cleaned, lower-cased texts are \<open>true\<close> and \<open>false\<close>,
  \<open>MC\<close> otherwise. The stored \<open>question_type\<close> plays no part in it.
\<close>

theorem type_detected_from_options:
  assumes "decode_item L item st = Inr st'" and "written st' = written st @ [r]"
  shows "Type r =
     (if length (response_labels item) = 2
         \<and> set (map (\<lambda>label. py_lower (answer_text L label)) (response_labels item))
             = {''true'', ''false''}
      then ''TF'' else ''MC'')"
proof -
  from assms(1) obtain q points where
    scan: "scan_metadata L (findall_desc (ims ''qtimetadatafield'') item) (Some '''', '''')
             = Inr (q, points)"
    by (auto simp: decode_item_def split: sum.splits)
  from decode_item_cases [OF assms(1)] assms(2) have "r = row_of L item"
    by auto
  with scan have "r = extract_row L item points"
    by (simp add: row_of_def)
  then have "Type r = detect_type (map (answer_text L) (take 5 (response_labels item)))"
    by (simp add: extract_row_def Let_def)
  then show ?thesis
    by (simp only: detect_type_options)
qed


theorem type_detected_from_options_witness:
  "decode_item py_sample tf_item_marked_mc
       \<lparr>written = [], count = 0, skipped_count = 0, printed = []\<rparr>
     = Inr \<lparr>written = [row_of py_sample tf_item_marked_mc], count = 1, skipped_count = 0,
            printed = []\<rparr>
   \<and> declared_type tf_item_marked_mc = Some ''multiple_choice_question''
   \<and> length (response_labels tf_item_marked_mc) = 2
   \<and> set (map (\<lambda>label. py_lower (answer_text py_sample label))
             (response_labels tf_item_marked_mc)) = {''true'', ''false''}
   \<and> Type (row_of py_sample tf_item_marked_mc) = ''TF''"
proof -
  let ?init = "\<lparr>written = [], count = 0, skipped_count = 0, printed = []\<rparr>"
  let ?final = "\<lparr>written = [row_of py_sample tf_item_marked_mc], count = 1,
                 skipped_count = 0, printed = []\<rparr>"
  have run: "decode_item py_sample tf_item_marked_mc ?init = Inr ?final"
    by code_simp
  have row: "written ?final = written ?init @ [row_of py_sample tf_item_marked_mc]"
    by simp
  have declared: "declared_type tf_item_marked_mc = Some ''multiple_choice_question''"
    by code_simp
  have two: "length (response_labels tf_item_marked_mc) = 2"
    by code_simp
  have texts: "map (\<lambda>label. py_lower (answer_text py_sample label))
      (response_labels tf_item_marked_mc) = [''true'', ''false'']"
    by code_simp
  from type_detected_from_options [OF run row] run declared two texts show ?thesis
    by simp
qed

lemma unparseable_points_default:
  "float_of L raw = None \<Longrightarrow>
     scan_metadata L [metadata_field ''points_possible'' (Some raw)] (q, p) = Inr (q, ''0.00'')"
  by (simp add: metadata_field_def pel_def find_child_def findall_child_def first_def
        py_text_is_def Let_def)

lemma unparseable_points_text:
  "Points (row_of py_sample item_unparseable_points) = ''0.00''"
  by code_simp

text \<open>
  C10. A \<open>points_possible\<close> field whose \<open>fieldentry\<close> has text that is not a number
  gives \<open>0.00\<close>. A \<open>fieldentry\<close> without text gives \<open>float(None)\<close>, a TypeError that
  the handler for ValueError lets through: the conversion stops at that item, after the rows
  written so far.
\<close>

theorem empty_points_entry_aborts:
  "console (convert_qti_to_csv py_sample
              (example_archive [mc_item, item_empty_points, tf_item_marked_mc]))
     = [Unexpected TypeError]
   \<and> csv_rows (convert_qti_to_csv py_sample
                 (example_archive [mc_item, item_empty_points, tf_item_marked_mc]))
     = Some [row_of py_sample mc_item]"
  by code_simp

section \<open>The item the encoder builds\<close>

lemma tag_el [simp]: "tag (el t a x cs) = ('''', t)"
  and children_el [simp]: "children (el t a x cs) = cs"
  and text_of_el [simp]: "text_of (el t a x cs) = x"
  by (simp_all add: el_def)

lemma get_el [simp]: "get (el t a x cs) k = map_of a k"
  by (induction a) (auto simp: el_def get_def)

lemma iter_el [simp]: "iter (el t a x cs) = el t a x cs # concat (map iter cs)"
  by (simp add: el_def)

lemma findall_desc_children:
  "findall_desc t e = concat (map (\<lambda>c. filter (\<lambda>x. tag x = t) (iter c)) (children e))"
  by (simp add: findall_desc_def descendants_def filter_concat comp_def)

lemma filter_tag_absent:
  "(\<And>x. x \<in> set xs \<Longrightarrow> snd (tag x) \<in> S) \<Longrightarrow> snd t \<notin> S \<Longrightarrow> filter (\<lambda>x. tag x = t) xs = []"
  by (auto simp: filter_empty_conv)

lemma tags_metadata:
  "x \<in> set (iter (item_metadata L q_type points)) \<Longrightarrow>
     snd (tag x) \<in> {''itemmetadata'', ''qtimetadata'', ''qtimetadatafield'', ''fieldlabel'', ''fieldentry''}"
  by (auto simp: item_metadata_def)

lemma tags_presentation:
  "x \<in> set (iter (item_presentation body ids answers)) \<Longrightarrow>
     snd (tag x) \<in> {''presentation'', ''material'', ''mattext'', ''response_lid'', ''render_choice'',
                     ''response_label''}"
  by (auto simp: item_presentation_def answer_label_def)

lemma tags_resprocessing:
  "x \<in> set (iter (item_resprocessing ids correct_idx)) \<Longrightarrow>
     snd (tag x) \<in> {''resprocessing'', ''outcomes'', ''decvar'', ''respcondition'', ''conditionvar'',
                     ''varequal'', ''setvar''}"
  by (auto simp: item_resprocessing_def split: if_splits)

lemma tags_add_feedback:
  "fb \<in> set (add_feedback ident txt) \<Longrightarrow> x \<in> set (iter fb) \<Longrightarrow>
     snd (tag x) \<in> {''itemfeedback'', ''flow_mat'', ''material'', ''mattext''}"
  by (auto simp: add_feedback_def split: option.splits if_splits)

lemma tags_item_feedback:
  "fb \<in> set (item_feedback row q_type ids) \<Longrightarrow> x \<in> set (iter fb) \<Longrightarrow>
     snd (tag x) \<in> {''itemfeedback'', ''flow_mat'', ''material'', ''mattext''}"
  by (auto simp: item_feedback_def split: if_splits dest: tags_add_feedback)

lemma metadata_fields_built:
  "findall_desc ('''', ''qtimetadatafield'') (build_item L c row q_type title body points answers correct_idx)
     = [el ''qtimetadatafield'' [] None
          [el ''fieldlabel'' [] (Some ''question_type'') [],
           el ''fieldentry'' [] (Some (q_type_str q_type)) []],
        el ''qtimetadatafield'' [] None
          [el ''fieldlabel'' [] (Some ''points_possible'') [],
           el ''fieldentry'' [] (Some (float_str L points)) []]]"
proof -
  have pres: "filter (\<lambda>x. tag x = ('''', ''qtimetadatafield'')) (iter (item_presentation body ids answers)) = []"
    for ids
    by (rule filter_tag_absent [OF tags_presentation]) auto
  have res: "filter (\<lambda>x. tag x = ('''', ''qtimetadatafield'')) (iter (item_resprocessing ids correct_idx)) = []"
    for ids
    by (rule filter_tag_absent [OF tags_resprocessing]) auto
  have fb: "concat (map (\<lambda>c. filter (\<lambda>x. tag x = ('''', ''qtimetadatafield'')) (iter c))
                        (item_feedback row q_type ids)) = []" for ids
    by (auto simp: filter_empty_conv dest: tags_item_feedback)
  have meta: "filter (\<lambda>x. tag x = ('''', ''qtimetadatafield'')) (iter (item_metadata L q_type points))
     = [el ''qtimetadatafield'' [] None
          [el ''fieldlabel'' [] (Some ''question_type'') [],
           el ''fieldentry'' [] (Some (q_type_str q_type)) []],
        el ''qtimetadatafield'' [] None
          [el ''fieldlabel'' [] (Some ''points_possible'') [],
           el ''fieldentry'' [] (Some (float_str L points)) []]]"
    by (simp add: item_metadata_def)
  show ?thesis
    by (simp add: findall_desc_children build_item_def Let_def pres res fb meta)
qed

lemma declared_type_built:
  "declared_type_in '''' (build_item L c row q_type title body points answers correct_idx)
     = Some (q_type_str q_type)"
  by (simp add: declared_type_in_def metadata_fields_built find_child_def findall_child_def
        first_def py_text_is_def)

lemma encode_row_items:
  assumes "encode_row L i row st = Inr st'"
  shows "\<exists>ty points w1 answers w2 correct_idx w3.
     row_get row ''Type'' (Some ''MC'') = Some ty
     \<and> parse_points L row (i + 2) = Inr (points, w1)
     \<and> build_answers row (i + 2) (row_get row ''Title'' (Some (''Question '' @ str_nat (i + 1))))
          (py_strip (py_upper ty)) = Inr (answers, w2)
     \<and> parse_correct row (i + 2) (length answers) = Inr (correct_idx, w3)
     \<and> st' = \<lparr>total_points = float_add L (total_points st) points,
              warnings = warnings st @ w1 @ w2 @ w3,
              question_count = question_count st + 1,
              items = items st @
                [build_item L (uuid_calls st) row (py_strip (py_upper ty))
                   (row_get row ''Title'' (Some (''Question '' @ str_nat (i + 1))))
                   (row_get row ''Question Body'' (Some '''')) points answers correct_idx],
              uuid_calls = uuid_calls st + 1 + length answers\<rparr>"
  using assms
  by (auto simp: encode_row_def Let_def split: option.splits sum.splits prod.splits)

text \<open>
  C6. The item written for a row declares \<open>true_false_question\<close> when the row's type,
  upper-cased and trimmed, is \<open>TF\<close>, and \<open>multiple_choice_question\<close> for every other
  type, \<open>MC\<close> and unrecognised values alike.
\<close>

theorem question_type_mapping:
  assumes "encode_row L i row st = Inr st'" and "row_get row ''Type'' (Some ''MC'') = Some ty"
  shows "declared_type_in '''' (last (items st')) =
     Some (if py_strip (py_upper ty) = ''TF'' then ''true_false_question''
           else ''multiple_choice_question'')"
  using encode_row_items [OF assms(1)] assms(2)
  by (auto simp: declared_type_built q_type_str_def)


lemma concat_map_single: "(\<And>x. x \<in> set xs \<Longrightarrow> f x = [x]) \<Longrightarrow> concat (map f xs) = xs"
  by (induction xs) auto

lemma feedback_block_self:
  "fb \<in> set (add_feedback ident txt) \<Longrightarrow>
     filter (\<lambda>x. tag x = ('''', ''itemfeedback'')) (iter fb) = [fb]"
  by (auto simp: add_feedback_def split: option.splits if_splits)

lemma feedback_blocks_built:
  "findall_desc ('''', ''itemfeedback'') (build_item L c row q_type title body points answers correct_idx)
     = item_feedback row q_type (map (\<lambda>k. ''i'' @ uuid_hex L (c + 1 + k)) [0 ..< length answers])"
proof -
  have meta: "filter (\<lambda>x. tag x = ('''', ''itemfeedback'')) (iter (item_metadata L q_type points)) = []"
    by (rule filter_tag_absent [OF tags_metadata]) auto
  have pres: "filter (\<lambda>x. tag x = ('''', ''itemfeedback'')) (iter (item_presentation body ids answers)) = []"
    for ids
    by (rule filter_tag_absent [OF tags_presentation]) auto
  have res: "filter (\<lambda>x. tag x = ('''', ''itemfeedback'')) (iter (item_resprocessing ids correct_idx)) = []"
    for ids
    by (rule filter_tag_absent [OF tags_resprocessing]) auto
  have fb: "concat (map (\<lambda>c. filter (\<lambda>x. tag x = ('''', ''itemfeedback'')) (iter c))
                        (item_feedback row q_type ids)) = item_feedback row q_type ids" for ids
    by (rule concat_map_single)
       (auto simp: item_feedback_def split: if_splits dest: feedback_block_self)
  show ?thesis
    by (simp add: findall_desc_children build_item_def Let_def pres res fb meta)
qed

lemma add_feedback_ident:
  "fb \<in> set (add_feedback ident txt) \<Longrightarrow> get fb ''ident'' = Some ident"
  by (auto simp: add_feedback_def split: option.splits if_splits)

lemma answer_label_self:
  "filter (\<lambda>x. tag x = ('''', ''response_label'')) (iter (answer_label z)) = [answer_label z]"
  by (cases z) (simp add: answer_label_def)

lemma response_labels_built:
  "findall_desc ('''', ''response_label'') (build_item L c row q_type title body points answers correct_idx)
     = map answer_label (zip (map (\<lambda>k. ''i'' @ uuid_hex L (c + 1 + k)) [0 ..< length answers]) answers)"
proof -
  have meta: "filter (\<lambda>x. tag x = ('''', ''response_label'')) (iter (item_metadata L q_type points)) = []"
    by (rule filter_tag_absent [OF tags_metadata]) auto
  have res: "filter (\<lambda>x. tag x = ('''', ''response_label'')) (iter (item_resprocessing ids correct_idx)) = []"
    for ids
    by (rule filter_tag_absent [OF tags_resprocessing]) auto
  have fb: "concat (map (\<lambda>c. filter (\<lambda>x. tag x = ('''', ''response_label'')) (iter c))
                        (item_feedback row q_type ids)) = []" for ids
    by (auto simp: filter_empty_conv dest: tags_item_feedback)
  have labels: "concat (map (\<lambda>z. filter (\<lambda>x. tag x = ('''', ''response_label'')) (iter z))
                            (map answer_label zs)) = map answer_label zs" for zs
    by (rule concat_map_single) (auto simp: answer_label_self)
  have pres: "filter (\<lambda>x. tag x = ('''', ''response_label'')) (iter (item_presentation body ids answers))
      = map answer_label (zip ids answers)" for ids
    using labels [of "zip ids answers"]
    by (simp add: item_presentation_def filter_concat comp_def)
  show ?thesis
    by (simp add: findall_desc_children build_item_def Let_def pres res fb meta)
qed

text \<open>
  C9. The item written for a row of type \<open>TF\<close> has no feedback block other than
  \<open>general_fb\<close>, \<open>correct_fb\<close> and \<open>general_incorrect_fb\<close>, whatever the cells
  \<open>Feedback 1\<close> to \<open>Feedback 5\<close> hold; in particular none is named after an option's
  identifier.
\<close>

theorem tf_item_has_no_option_feedback:
  assumes "encode_row L i row st = Inr st'"
    and "row_get row ''Type'' (Some ''MC'') = Some ty"
    and "py_strip (py_upper ty) = ''TF''"
  shows "(\<forall>fb \<in> set (findall_desc ('''', ''itemfeedback'') (last (items st'))).
            get fb ''ident'' \<in> {Some ''general_fb'', Some ''correct_fb'', Some ''general_incorrect_fb''})
       \<and> (\<forall>fb \<in> set (findall_desc ('''', ''itemfeedback'') (last (items st'))).
            \<forall>label \<in> set (findall_desc ('''', ''response_label'') (last (items st'))).
              get fb ''ident'' \<noteq> Some (py_str (get label ''ident'') @ ''_fb''))"
proof -
  from encode_row_items [OF assms(1)] assms(2,3) obtain points answers correct_idx where
    it: "last (items st') =
           build_item L (uuid_calls st) row ''TF''
             (row_get row ''Title'' (Some (''Question '' @ str_nat (i + 1))))
             (row_get row ''Question Body'' (Some '''')) points answers correct_idx"
    by auto
  have named: "get fb ''ident'' \<in> {Some ''general_fb'', Some ''correct_fb'', Some ''general_incorrect_fb''}"
    if "fb \<in> set (findall_desc ('''', ''itemfeedback'') (last (items st')))" for fb
    using that unfolding it feedback_blocks_built
    by (auto simp: item_feedback_def dest: add_feedback_ident)
  have ident: "\<exists>h. get label ''ident'' = Some (CHR ''i'' # h)"
    if "label \<in> set (findall_desc ('''', ''response_label'') (last (items st')))" for label
    using that unfolding it response_labels_built
    by (auto simp: answer_label_def set_zip)
  show ?thesis
  proof (intro conjI ballI)
    fix fb assume "fb \<in> set (findall_desc ('''', ''itemfeedback'') (last (items st')))"
    then show "get fb ''ident'' \<in> {Some ''general_fb'', Some ''correct_fb'', Some ''general_incorrect_fb''}"
      by (rule named)
  next
    fix fb label
    assume fb: "fb \<in> set (findall_desc ('''', ''itemfeedback'') (last (items st')))"
      and "label \<in> set (findall_desc ('''', ''response_label'') (last (items st')))"
    then obtain h where "get label ''ident'' = Some (CHR ''i'' # h)"
      using ident by blast
    with named [OF fb] show "get fb ''ident'' \<noteq> Some (py_str (get label ''ident'') @ ''_fb'')"
      by (auto simp: py_str_def)
  qed
qed

lemma parse_points_value: "parse_points L row n = Inr (p, w) \<Longrightarrow> p = points_value L row"
  by (auto simp: parse_points_def points_value_def split: option.splits)

lemma encode_rows_total:
  "encode_rows L i rows st = Inr st' \<Longrightarrow>
     total_points st' = foldl (float_add L) (total_points st) (map (points_value L) rows)"
proof (induction rows arbitrary: i st)
  case Nil
  then show ?case by simp
next
  case (Cons row rows)
  from Cons.prems obtain st1 where
    step: "encode_row L i row st = Inr st1" and rest: "encode_rows L (i + 1) rows st1 = Inr st'"
    by (auto split: sum.splits)
  from encode_row_items [OF step] have "total_points st1 = float_add L (total_points st) (points_value L row)"
    by (auto dest: parse_points_value)
  with Cons.IH [OF rest] show ?case by simp
qed

lemma xml_newlines_plain: "CHR 0x0D \<notin> set s \<Longrightarrow> xml_newlines s = s"
  by (induction s rule: xml_newlines.induct) auto

text \<open>
  C4. When the archive is written, the total in the metadata document is \<open>str\<close> of the
  float sum of the rows' points: each row's \<open>Points\<close> cell as \<open>float\<close> reads it, or
  \<open>0.0\<close> when it is not a number or the column is absent, added to \<open>0.0\<close> in row order.
  Nothing else of the input enters it. (It is printed as \<open>str\<close> prints a float, not with
  two decimals: see the counterexample.)
\<close>

theorem total_points_recomputed:
  assumes "create_qti_zip L quiz_title (Some names) rows = Finished w zs None n t"
    and "float_str L t \<noteq> []" and "CHR 0x0D \<notin> set (float_str L t)"
  shows "t = foldl (float_add L) (float_zero L)
               (map (points_value L)
                    (map (dict_row (map py_strip names)) (filter (\<lambda>cells. cells \<noteq> []) rows)))
       \<and> written_total (''i'' @ uuid_hex L 0 @ ''/assessment_meta.xml'') zs = Some (float_str L t)"
proof -
  let ?dicts = "map (dict_row (map py_strip names)) (filter (\<lambda>cells. cells \<noteq> []) rows)"
  let ?st0 = "\<lparr>total_points = float_zero L, warnings = [], question_count = 0, items = [],
               uuid_calls = 3\<rparr>"
  from assms(1) obtain st where
    run: "encode_rows L 0 ?dicts ?st0 = Inr st" and t: "t = total_points st"
    and zs: "write_entries
          [(''imsmanifest.xml'',
            manifest_doc (''i'' @ uuid_hex L 1) (''i'' @ uuid_hex L 0) (''i'' @ uuid_hex L 2)),
           ((''i'' @ uuid_hex L 0) @ ''/'' @ (''i'' @ uuid_hex L 0) @ ''.xml'',
            qti_root (''i'' @ uuid_hex L 0) quiz_title (items st)),
           ((''i'' @ uuid_hex L 0) @ ''/assessment_meta.xml'',
            meta_root L (''i'' @ uuid_hex L 0) quiz_title (total_points st))] = (zs, None)"
    by (auto simp: create_qti_zip_def Let_def split: sum.splits prod.splits)
  from encode_rows_total [OF run] t have total: "t = foldl (float_add L) (float_zero L)
      (map (points_value L) ?dicts)"
    by simp
  from zs have "map_of (rev zs) (''i'' @ uuid_hex L 0 @ ''/assessment_meta.xml'')
      = Some (reparse [] 0 (meta_root L (''i'' @ uuid_hex L 0) quiz_title (total_points st)))"
    by (auto simp: prettify_def split: if_splits sum.splits prod.splits)
  moreover have "find_child (''http://canvas.instructure.com/xsd/cccv1p0'', ''points_possible'')
        (reparse [] 0 (meta_root L (''i'' @ uuid_hex L 0) quiz_title (total_points st)))
      = Some (Elem (''http://canvas.instructure.com/xsd/cccv1p0'', ''points_possible'') [] (Some (float_str L t)) [])"
    using assms(2,3) t
    by (simp add: meta_root_def el_def find_child_def findall_child_def first_def ns_decls_def
          py_str_def qualify_tag_def parsed_attrs_def parsed_text_def xml_newlines_plain Let_def)
  ultimately have "written_total (''i'' @ uuid_hex L 0 @ ''/assessment_meta.xml'') zs = Some (float_str L t)"
    by (simp add: written_total_def)
  with total show ?thesis by simp
qed

theorem question_type_mapping_witness:
  "\<not> isl (encode_row py_sample 0 (dict_row csv_header unknown_type_cells) (enc_start py_sample))
   \<and> row_get (dict_row csv_header unknown_type_cells) ''Type'' (Some ''MC'') = Some ''essay''
   \<and> py_strip (py_upper ''essay'') = ''ESSAY''
   \<and> declared_type_in ''''
        (last (items (projr (encode_row py_sample 0 (dict_row csv_header unknown_type_cells)
                               (enc_start py_sample)))))
      = Some ''multiple_choice_question''"
proof -
  let ?row = "dict_row csv_header unknown_type_cells"
  let ?run = "encode_row py_sample 0 ?row (enc_start py_sample)"
  have ok: "\<not> isl ?run"
    by code_simp
  then have run: "?run = Inr (projr ?run)"
    by simp
  have ty: "row_get ?row ''Type'' (Some ''MC'') = Some ''essay''"
    by code_simp
  have up: "py_strip (py_upper ''essay'') = ''ESSAY''"
    by code_simp
  from question_type_mapping [OF run ty] ok ty up show ?thesis
    by simp
qed

theorem tf_item_has_no_option_feedback_witness:
  "\<not> isl (encode_row py_sample 0 (dict_row csv_header tf_cells) (enc_start py_sample))
   \<and> row_get (dict_row csv_header tf_cells) ''Type'' (Some ''MC'') = Some ''tf''
   \<and> py_strip (py_upper ''tf'') = ''TF''
   \<and> row_get (dict_row csv_header tf_cells) ''Feedback 1'' None = Some ''Yes''
   \<and> map (\<lambda>fb. get fb ''ident'')
        (findall_desc ('''', ''itemfeedback'')
           (last (items (projr (encode_row py_sample 0 (dict_row csv_header tf_cells)
                                  (enc_start py_sample))))))
      = [Some ''general_fb'', Some ''correct_fb'', Some ''general_incorrect_fb'']
   \<and> map (\<lambda>label. get label ''ident'')
        (findall_desc ('''', ''response_label'')
           (last (items (projr (encode_row py_sample 0 (dict_row csv_header tf_cells)
                                  (enc_start py_sample))))))
      = [Some ''i00000000000000000000000000000004'', Some ''i00000000000000000000000000000005'']
   \<and> set (map (\<lambda>fb. get fb ''ident'')
        (findall_desc ('''', ''itemfeedback'')
           (last (items (projr (encode_row py_sample 0 (dict_row csv_header tf_cells)
                                  (enc_start py_sample)))))))
      \<subseteq> {Some ''general_fb'', Some ''correct_fb'', Some ''general_incorrect_fb''}"
proof -
  let ?row = "dict_row csv_header tf_cells"
  let ?run = "encode_row py_sample 0 ?row (enc_start py_sample)"
  have ok: "\<not> isl ?run"
    by code_simp
  then have run: "?run = Inr (projr ?run)"
    by simp
  have ty: "row_get ?row ''Type'' (Some ''MC'') = Some ''tf''"
    by code_simp
  have up: "py_strip (py_upper ''tf'') = ''TF''"
    by code_simp
  have cell: "row_get ?row ''Feedback 1'' None = Some ''Yes''"
    by code_simp
  have blocks: "map (\<lambda>fb. get fb ''ident'')
      (findall_desc ('''', ''itemfeedback'') (last (items (projr ?run))))
      = [Some ''general_fb'', Some ''correct_fb'', Some ''general_incorrect_fb'']"
    by code_simp
  have labels: "map (\<lambda>label. get label ''ident'')
      (findall_desc ('''', ''response_label'') (last (items (projr ?run))))
      = [Some ''i00000000000000000000000000000004'', Some ''i00000000000000000000000000000005'']"
    by code_simp
  from tf_item_has_no_option_feedback [OF run ty up]
  have "set (map (\<lambda>fb. get fb ''ident'')
      (findall_desc ('''', ''itemfeedback'') (last (items (projr ?run)))))
      \<subseteq> {Some ''general_fb'', Some ''correct_fb'', Some ''general_incorrect_fb''}"
    by auto
  with ok ty up cell blocks labels show ?thesis
    by blast
qed

theorem total_points_recomputed_witness:
  "\<not> is_ReadFailed (create_qti_zip py_sample ''quiz'' (Some csv_header) [spec_cells])
   \<and> write_error (create_qti_zip py_sample ''quiz'' (Some csv_header) [spec_cells]) = None
   \<and> points_of (create_qti_zip py_sample ''quiz'' (Some csv_header) [spec_cells]) = 5
   \<and> float_str py_sample 5 = ''5.0''
   \<and> written_total (''i'' @ uuid_hex py_sample 0 @ ''/assessment_meta.xml'')
        (zip_of (create_qti_zip py_sample ''quiz'' (Some csv_header) [spec_cells]))
      = Some ''5.0''"
proof -
  let ?r = "create_qti_zip py_sample ''quiz'' (Some csv_header) [spec_cells]"
  have fin: "\<not> is_ReadFailed ?r \<and> write_error ?r = None \<and> points_of ?r = 5"
    by code_simp
  then have r: "?r = Finished (warnings_of ?r) (zip_of ?r) None (questions_of ?r) 5"
    using enc_result.collapse(2) [of ?r] by simp
  have str: "float_str py_sample 5 = ''5.0''"
    by code_simp
  then have s1: "float_str py_sample 5 \<noteq> []" and s2: "CHR 0x0D \<notin> set (float_str py_sample 5)"
    by simp_all
  from total_points_recomputed [OF r s1 s2] fin str show ?thesis
    by simp
qed

theorem total_points_not_two_decimals:
  "written_total (''i'' @ uuid_hex py_sample 0 @ ''/assessment_meta.xml'')
     (zip_of (create_qti_zip py_sample ''quiz'' (Some csv_header) [spec_cells])) = Some ''5.0''"
  by code_simp

lemma correct_answer_non_numeric:
  "row_get row ''Correct Answer'' (Some '''') = Some v \<Longrightarrow> \<not> py_isdigit (py_strip v) \<Longrightarrow>
     parse_correct row row_num n = Inr (- 1, [MissingCorrect row_num])"
  by (simp add: parse_correct_def)

lemma correct_answer_above_range:
  "row_get row ''Correct Answer'' (Some '''') = Some v \<Longrightarrow> py_isdigit (py_strip v) \<Longrightarrow>
     py_int (py_strip v) = Some k \<Longrightarrow> n < k \<Longrightarrow>
     parse_correct row row_num n = Inr (- 1, [OutOfRange row_num (py_strip v) n])"
  by (simp add: parse_correct_def)

lemma no_scoring_rule_without_answer:
  "findall_desc ('''', ''respcondition'') (item_resprocessing answer_ids (- 1)) = []"
  by (simp add: item_resprocessing_def findall_desc_def descendants_def)

text \<open>
  C5. A \<open>Correct Answer\<close> cell that is not numeric gives the warning for a missing or
  non-numeric answer, and a number above the number of options gives the out-of-range
  warning; in both cases the item has no scoring rule and the loop goes on. The cell
  \<open>0\<close> gives \<open>correct_idx = -1\<close>, the value that means no answer, so the range check
  is not entered and no warning is recorded.
\<close>

theorem correct_answer_zero_unwarned:
  "parse_correct (dict_row csv_header zero_cells) 2 2 = Inr (- 1, [])
   \<and> warnings_of (create_qti_zip py_sample ''quiz'' (Some csv_header) [zero_cells]) = []"
  by code_simp

text \<open>
  C7. A row whose type is neither \<open>MC\<close> nor \<open>TF\<close> gets the warning for an unknown type
  and an item declared \<open>multiple_choice_question\<close>, but its option list stays empty: the
  \<open>Option\<close> cells are read only in the branch for \<open>MC\<close>.
\<close>

theorem unknown_type_has_no_options:
  "build_answers (dict_row csv_header unknown_type_cells) 2 (Some ''Q1'') ''ESSAY''
     = Inr ([], [UnknownType 2 ''ESSAY''])
   \<and> warnings_of (create_qti_zip py_sample ''quiz'' (Some csv_header) [unknown_type_cells])
     = [UnknownType 2 ''ESSAY'', OutOfRange 2 ''1'' 0]
   \<and> map_option (map (\<lambda>r. (Type r, Options r, Correct_Answer r)))
        (csv_rows (convert_qti_to_csv py_sample (read_zip (zip_of
           (create_qti_zip py_sample ''quiz'' (Some csv_header) [unknown_type_cells])))))
     = Some [(''MC'', ['''', '''', '''', '''', ''''], '''')]"
  by code_simp

end
